theory Spec2Isabelle
  imports Main
begin

section \<open>Values and errors\<close>

text \<open>
  A Go \<^verbatim>\<open>string\<close> and a Go \<^verbatim>\<open>[]byte\<close> are both sequences of bytes; both are
  modelled as \<^typ>\<open>string\<close> (a list of 8-bit characters). The errors are the error values of
  the library packages that \<^verbatim>\<open>parse.go\<close> imports.
\<close>

datatype error =
    CorruptInputError nat          \<comment> \<open>encoding/base64: illegal data at this input byte\<close>
  | SyntaxError string             \<comment> \<open>encoding/json: not a JSON text; the context of the message\<close>
  | UnmarshalTypeError string      \<comment> \<open>encoding/json: a JSON value of this kind does not fit\<close>
  | EscapeError string             \<comment> \<open>net/url: invalid URL escape\<close>
  | InvalidHostError string        \<comment> \<open>net/url: invalid character in host name\<close>
  | InvalidPortError string        \<comment> \<open>net/url: invalid port after host\<close>
  | errors_New string              \<comment> \<open>an error made by \<^verbatim>\<open>errors.New\<close> from this text\<close>

section \<open>encoding/base64\<close>

text \<open>
  The package \<^verbatim>\<open>encoding/base64\<close> belongs to the Go standard library, not to the repository.
  The model follows the library: an \<^verbatim>\<open>Encoding\<close> is an alphabet of 64 characters, an
  optional padding character (\<^verbatim>\<open>NoPadding\<close> is \<^term>\<open>None\<close>) and the strict flag.
\<close>

record Encoding =
  encode :: string
  padChar :: "char option"
  strict :: bool

definition encodeStd :: string where
  "encodeStd = ''ABCDEFGHIJKLMNOPQRSTUVWXYZabcdefghijklmnopqrstuvwxyz0123456789+/''"

definition encodeURL :: string where
  "encodeURL = ''ABCDEFGHIJKLMNOPQRSTUVWXYZabcdefghijklmnopqrstuvwxyz0123456789-_''"

definition StdEncoding :: Encoding where
  "StdEncoding = \<lparr>encode = encodeStd, padChar = Some CHR ''='', strict = False\<rparr>"

definition RawURLEncoding :: Encoding where
  "RawURLEncoding = \<lparr>encode = encodeURL, padChar = None, strict = False\<rparr>"

text \<open>
  \<^verbatim>\<open>decodeMap\<close>: the library fills a 256-entry table with \<^verbatim>\<open>0xFF\<close> and then stores
  \<^verbatim>\<open>i\<close> at \<^verbatim>\<open>encoder[i]\<close> for \<^verbatim>\<open>i = 0 .. 63\<close>. An entry \<^verbatim>\<open>0xFF\<close> is \<^term>\<open>None\<close> here.
\<close>

primrec fillDecodeMap :: "string \<Rightarrow> nat \<Rightarrow> (char \<rightharpoonup> nat) \<Rightarrow> (char \<rightharpoonup> nat)" where
  "fillDecodeMap [] i m = m"
| "fillDecodeMap (c # cs) i m = fillDecodeMap cs (Suc i) (m(c \<mapsto> i))"

definition decodeMap :: "Encoding \<Rightarrow> char \<rightharpoonup> nat" where
  "decodeMap enc = fillDecodeMap (encode enc) 0 Map.empty"

definition isNewline :: "char \<Rightarrow> bool" where
  "isNewline c \<longleftrightarrow> c = CHR 0x0A \<or> c = CHR 0x0D"

definition byte :: "nat \<Rightarrow> char" where
  \<comment> \<open>the conversion \<^verbatim>\<open>byte(x)\<close>: the low eight bits of \<^verbatim>\<open>x\<close>\<close>
  "byte x = Char (odd x) (odd (x div 2)) (odd (x div 4)) (odd (x div 8))
                 (odd (x div 16)) (odd (x div 32)) (odd (x div 64)) (odd (x div 128))"

text \<open>
  The tail of \<^verbatim>\<open>decodeQuantum\<close>: up to four 6-bit values (missing ones are zero) are
  assembled into a 24-bit value, of which \<^verbatim>\<open>dlen - 1\<close> bytes are written. The library
  combines the shifted values with bitwise or; they occupy disjoint bits, so the sum
  is the same number. With \<^verbatim>\<open>strict\<close> set, left-over bits must be zero.
\<close>

definition assemble :: "Encoding \<Rightarrow> nat \<Rightarrow> nat list \<Rightarrow> string \<times> error option" where
  "assemble enc si dbuf =
     (let dlen = length dbuf;
          d = dbuf @ replicate (4 - dlen) 0;
          val = (d ! 0) * 262144 + (d ! 1) * 4096 + (d ! 2) * 64 + (d ! 3);
          b0 = (val div 65536) mod 256;
          b1 = (val div 256) mod 256;
          b2 = val mod 256
      in if dlen = 4 then ([byte b0, byte b1, byte b2], None)
         else if dlen = 3 then
           (if strict enc \<and> b2 \<noteq> 0 then ([], Some (CorruptInputError (si - 1)))
            else ([byte b0, byte b1], None))
         else if dlen = 2 then
           (if strict enc \<and> (b1 \<noteq> 0 \<or> b2 \<noteq> 0) then ([], Some (CorruptInputError (si - 2)))
            else ([byte b0], None))
         else ([], None))"

text \<open>
  \<^verbatim>\<open>decodeQuantum(dst, src, si)\<close>. The arguments are the encoding, \<^verbatim>\<open>len(src)\<close>, the
  bytes of \<^verbatim>\<open>src\<close> from index \<^verbatim>\<open>si\<close> on, \<^verbatim>\<open>si\<close> itself and the 6-bit values read so
  far (the loop counter \<^verbatim>\<open>j\<close> is their number). The result is the unread rest of
  \<^verbatim>\<open>src\<close>, the new \<^verbatim>\<open>si\<close>, the bytes written and the error.
\<close>

type_synonym quantum = "string \<times> nat \<times> string \<times> error option"

definition skipNewlines :: "string \<Rightarrow> nat \<Rightarrow> string \<times> nat" where
  \<comment> \<open>\<^verbatim>\<open>for si < len(src) && (src[si] == '\n' || src[si] == '\r') { si++ }\<close>\<close>
  "skipNewlines src si =
     (let rest = dropWhile isNewline src in (rest, si + (length src - length rest)))"

definition endOfData :: "Encoding \<Rightarrow> string \<Rightarrow> nat \<Rightarrow> nat list \<Rightarrow> quantum" where
  \<comment> \<open>after the padding: newlines are skipped, anything else is trailing garbage\<close>
  "endOfData enc src si dbuf =
     (case skipNewlines src si of (src', si') \<Rightarrow>
        (case assemble enc si' dbuf of
           (out, Some e) \<Rightarrow> (src', si', [], Some e)
         | (out, None) \<Rightarrow>
             (src', si', out, if src' \<noteq> [] then Some (CorruptInputError si') else None)))"

definition seenPadding :: "Encoding \<Rightarrow> nat \<Rightarrow> string \<Rightarrow> nat \<Rightarrow> nat list \<Rightarrow> quantum" where
  \<comment> \<open>the byte before \<^verbatim>\<open>si\<close> was the padding character\<close>
  "seenPadding enc n src si dbuf =
     (let j = length dbuf in
      if j = 0 \<or> j = 1 then (src, si, [], Some (CorruptInputError (si - 1)))
      else if j = 2 then
        (case skipNewlines src si of (src', si') \<Rightarrow>
           (case src' of
              [] \<Rightarrow> (src', si', [], Some (CorruptInputError n))
            | c # src'' \<Rightarrow>
                if Some c \<noteq> padChar enc then (src', si', [], Some (CorruptInputError (si' - 1)))
                else endOfData enc src'' (Suc si') dbuf))
      else endOfData enc src si dbuf)"

fun decodeQuantum :: "Encoding \<Rightarrow> nat \<Rightarrow> string \<Rightarrow> nat \<Rightarrow> nat list \<Rightarrow> quantum" where
  "decodeQuantum enc n [] si dbuf =
     (let j = length dbuf in
      if j = 0 then ([], si, [], None)
      else if j = 1 \<or> padChar enc \<noteq> None then ([], si, [], Some (CorruptInputError (si - j)))
      else (case assemble enc si dbuf of (out, err) \<Rightarrow> ([], si, out, err)))"
| "decodeQuantum enc n (c # src) si dbuf =
     (case decodeMap enc c of
        Some v \<Rightarrow>
          if length dbuf = 3
          then (case assemble enc (Suc si) (dbuf @ [v]) of (out, err) \<Rightarrow> (src, Suc si, out, err))
          else decodeQuantum enc n src (Suc si) (dbuf @ [v])
      | None \<Rightarrow>
          if isNewline c then decodeQuantum enc n src (Suc si) dbuf
          else if Some c \<noteq> padChar enc then (src, Suc si, [], Some (CorruptInputError si))
          else seenPadding enc n src (Suc si) dbuf)"

lemma skipNewlines_rest: "skipNewlines src si = (rest, si') \<Longrightarrow> length rest \<le> length src"
  by (auto simp: skipNewlines_def Let_def length_dropWhile_le)

lemma endOfData_rest: "endOfData enc src si dbuf = (rest, q) \<Longrightarrow> length rest \<le> length src"
  by (auto simp: endOfData_def split: prod.splits option.splits dest: skipNewlines_rest)

lemma seenPadding_rest: "seenPadding enc n src si dbuf = (rest, q) \<Longrightarrow> length rest \<le> length src"
proof -
  assume a: "seenPadding enc n src si dbuf = (rest, q)"
  obtain s1 i1 where sk: "skipNewlines src si = (s1, i1)"
    by (cases "skipNewlines src si")
  have l1: "length s1 \<le> length src"
    using sk by (rule skipNewlines_rest)
  show ?thesis
  proof (cases "length dbuf = 2")
    case False
    with a show ?thesis
      by (auto simp: seenPadding_def Let_def split: if_splits dest: endOfData_rest)
  next
    case True
    show ?thesis
    proof (cases s1)
      case Nil
      with a sk True show ?thesis by (simp add: seenPadding_def)
    next
      case (Cons c s2)
      show ?thesis
      proof (cases "Some c \<noteq> padChar enc")
        case True
        with a sk Cons \<open>length dbuf = 2\<close> l1 show ?thesis
          by (auto simp: seenPadding_def)
      next
        case False
        with a sk Cons \<open>length dbuf = 2\<close> have "endOfData enc s2 (Suc i1) dbuf = (rest, q)"
          by (simp add: seenPadding_def)
        from endOfData_rest [OF this] l1 Cons show ?thesis by simp
      qed
    qed
  qed
qed

lemma decodeQuantum_rest_le:
  "decodeQuantum enc n src si dbuf = (rest, q) \<Longrightarrow> length rest \<le> length src"
proof (induction src arbitrary: si dbuf)
  case Nil
  then show ?case
    by (auto simp: Let_def split: if_splits prod.splits)
next
  case (Cons c src)
  show ?case
  proof (cases "decodeMap enc c")
    case (Some v)
    show ?thesis
    proof (cases "length dbuf = 3")
      case True
      with Cons.prems Some show ?thesis by (auto split: prod.splits)
    next
      case False
      with Cons.prems Some have "decodeQuantum enc n src (Suc si) (dbuf @ [v]) = (rest, q)"
        by simp
      from Cons.IH [OF this] show ?thesis by simp
    qed
  next
    case None
    show ?thesis
    proof (cases "isNewline c")
      case True
      with Cons.prems None have "decodeQuantum enc n src (Suc si) dbuf = (rest, q)"
        by simp
      from Cons.IH [OF this] show ?thesis by simp
    next
      case False
      show ?thesis
      proof (cases "Some c \<noteq> padChar enc")
        case True
        with Cons.prems None \<open>\<not> isNewline c\<close> show ?thesis by auto
      next
        case pad: False
        with Cons.prems None \<open>\<not> isNewline c\<close>
        have "seenPadding enc n src (Suc si) dbuf = (rest, q)"
          by simp
        from seenPadding_rest [OF this] show ?thesis by simp
      qed
    qed
  qed
qed

lemma decodeQuantum_rest:
  assumes "decodeQuantum enc n src si [] = (rest, q)" and "src \<noteq> []"
  shows "length rest < length src"
proof -
  from assms(2) obtain c src' where src: "src = c # src'"
    by (cases src) auto
  show ?thesis
  proof (cases "decodeMap enc c")
    case (Some v)
    with assms(1) src have "decodeQuantum enc n src' (Suc si) [v] = (rest, q)"
      by simp
    from decodeQuantum_rest_le [OF this] src show ?thesis by simp
  next
    case None
    show ?thesis
    proof (cases "isNewline c")
      case True
      with assms(1) src None have "decodeQuantum enc n src' (Suc si) [] = (rest, q)"
        by simp
      from decodeQuantum_rest_le [OF this] src show ?thesis by simp
    next
      case False
      with assms(1) src None show ?thesis
        by (auto simp: seenPadding_def split: if_splits)
    qed
  qed
qed

text \<open>
  \<^verbatim>\<open>Decode\<close>: quantum after quantum until the input is used up or a quantum reports an
  error; the bytes written so far are returned with the error. (The library first runs
  two loops that convert 8 and 4 alphabet characters at a time and leave every other
  case to \<^verbatim>\<open>decodeQuantum\<close>; they compute what \<^verbatim>\<open>decodeQuantum\<close> computes on those
  characters.)
\<close>

function Decode :: "Encoding \<Rightarrow> nat \<Rightarrow> string \<Rightarrow> nat \<Rightarrow> string \<times> error option" where
  "Decode enc n [] si = ([], None)"
| "Decode enc n (c # src) si =
     (case decodeQuantum enc n (c # src) si [] of
        (rest, si', out, Some e) \<Rightarrow> (out, Some e)
      | (rest, si', out, None) \<Rightarrow>
          (case Decode enc n rest si' of (out', err) \<Rightarrow> (out @ out', err)))"
  by pat_completeness auto
termination
proof (relation "measure (\<lambda>(enc, n, src, si). length src)", goal_cases)
  case 1
  show ?case by simp
next
  case 2
  then show ?case
    by (auto simp del: decodeQuantum.simps dest!: decodeQuantum_rest [OF sym])
qed

definition DecodeString :: "Encoding \<Rightarrow> string \<Rightarrow> string \<times> error option" where
  "DecodeString enc s = Decode enc (length s) s 0"

text \<open>
  \<^verbatim>\<open>EncodeToString\<close> is not called by the loaders; it is the encoding that the tools
  producing the blobs apply, and the claims about encoded payloads are stated with it.
\<close>

definition sextet :: "Encoding \<Rightarrow> nat \<Rightarrow> char" where
  "sextet enc v = encode enc ! (v mod 64)"

fun EncodeToString :: "Encoding \<Rightarrow> string \<Rightarrow> string" where
  "EncodeToString enc (a # b # c # src) =
     (let val = of_char a * 65536 + of_char b * 256 + (of_char c :: nat) in
      [sextet enc (val div 262144), sextet enc (val div 4096),
       sextet enc (val div 64), sextet enc val] @ EncodeToString enc src)"
| "EncodeToString enc [a, b] =
     (let val = of_char a * 65536 + of_char b * (256 :: nat) in
      [sextet enc (val div 262144), sextet enc (val div 4096), sextet enc (val div 64)] @
      (case padChar enc of Some p \<Rightarrow> [p] | None \<Rightarrow> []))"
| "EncodeToString enc [a] =
     (let val = of_char a * (65536 :: nat) in
      [sextet enc (val div 262144), sextet enc (val div 4096)] @
      (case padChar enc of Some p \<Rightarrow> [p, p] | None \<Rightarrow> []))"
| "EncodeToString enc [] = []"

text \<open>
  The conditions under which the library builds an encoding: \<^verbatim>\<open>NewEncoding\<close> takes an
  alphabet of 64 bytes without newline characters, \<^verbatim>\<open>WithPadding\<close> a padding character
  that is no newline and not in the alphabet. The two encodings used here are not strict.
\<close>

definition wellformed :: "Encoding \<Rightarrow> bool" where
  "wellformed enc \<longleftrightarrow>
     length (encode enc) = 64 \<and> distinct (encode enc) \<and> \<not> strict enc \<and>
     (case padChar enc of None \<Rightarrow> True | Some p \<Rightarrow> \<not> isNewline p \<and> p \<notin> set (encode enc))"

section \<open>net/url\<close>

text \<open>
  \<^verbatim>\<open>url.Parse\<close> of the Go standard library (as of Go 1.21). The loader discards the
  parsed URL and keeps the error only, so the model computes the error: \<^term>\<open>None\<close> is
  \<^verbatim>\<open>nil\<close>. The library wraps the error in a \<^verbatim>\<open>url.Error\<close> that adds the operation
  and the input; the model gives the wrapped error.
\<close>

definition isAlpha :: "char \<Rightarrow> bool" where
  "isAlpha c \<longleftrightarrow> (let n = of_char c :: nat in (97 \<le> n \<and> n \<le> 122) \<or> (65 \<le> n \<and> n \<le> 90))"

definition isDigit :: "char \<Rightarrow> bool" where
  "isDigit c \<longleftrightarrow> (let n = of_char c :: nat in 48 \<le> n \<and> n \<le> 57)"

definition ishex :: "char \<Rightarrow> bool" where
  "ishex c \<longleftrightarrow> (let n = of_char c :: nat in
     (48 \<le> n \<and> n \<le> 57) \<or> (97 \<le> n \<and> n \<le> 102) \<or> (65 \<le> n \<and> n \<le> 70))"

definition unhex :: "char \<Rightarrow> nat" where
  "unhex c = (let n = of_char c :: nat in
     if 48 \<le> n \<and> n \<le> 57 then n - 48
     else if 97 \<le> n \<and> n \<le> 102 then n - 97 + 10
     else if 65 \<le> n \<and> n \<le> 70 then n - 65 + 10
     else 0)"

definition isCTLByte :: "char \<Rightarrow> bool" where
  "isCTLByte b \<longleftrightarrow> (of_char b :: nat) < 32 \<or> (of_char b :: nat) = 127"

definition stringContainsCTLByte :: "string \<Rightarrow> bool" where
  "stringContainsCTLByte s = list_ex isCTLByte s"

text \<open>The functions of package \<^verbatim>\<open>strings\<close> that \<^verbatim>\<open>net/url\<close> calls.\<close>

definition Cut :: "string \<Rightarrow> char \<Rightarrow> string \<times> string" where
  \<comment> \<open>\<^verbatim>\<open>strings.Cut(s, sep)\<close> for a separator of one byte, without the flag\<close>
  "Cut s sep = (takeWhile (\<lambda>c. c \<noteq> sep) s, drop 1 (dropWhile (\<lambda>c. c \<noteq> sep) s))"

fun HasPrefix :: "string \<Rightarrow> string \<Rightarrow> bool" where
  "HasPrefix s [] = True"
| "HasPrefix [] (p # ps) = False"
| "HasPrefix (c # s) (p # ps) = (c = p \<and> HasPrefix s ps)"

fun Index :: "string \<Rightarrow> string \<Rightarrow> nat option" where
  "Index [] sub = (if sub = [] then Some 0 else None)"
| "Index (c # s) sub =
     (if HasPrefix (c # s) sub then Some 0 else map_option Suc (Index s sub))"

fun LastIndexByte :: "string \<Rightarrow> char \<Rightarrow> nat option" where
  "LastIndexByte [] c = None"
| "LastIndexByte (x # s) c =
     (case LastIndexByte s c of Some i \<Rightarrow> Some (Suc i) | None \<Rightarrow> if x = c then Some 0 else None)"

fun getScheme :: "string \<Rightarrow> nat \<Rightarrow> string \<Rightarrow> error + string \<times> string" where
  \<comment> \<open>the arguments: \<^verbatim>\<open>rawURL\<close>, the index \<^verbatim>\<open>i\<close>, and \<^verbatim>\<open>rawURL[i:]\<close>\<close>
  "getScheme rawURL i [] = Inr ([], rawURL)"
| "getScheme rawURL i (c # cs) =
     (if isAlpha c then getScheme rawURL (Suc i) cs
      else if isDigit c \<or> c = CHR ''+'' \<or> c = CHR ''-'' \<or> c = CHR ''.'' then
        (if i = 0 then Inr ([], rawURL) else getScheme rawURL (Suc i) cs)
      else if c = CHR '':'' then
        (if i = 0 then Inl (errors_New ''missing protocol scheme'') else Inr (take i rawURL, cs))
      else Inr ([], rawURL))"

datatype encoding = encodePath | encodeHost | encodeZone | encodeUserPassword | encodeFragment

definition shouldEscapeHost :: "char \<Rightarrow> bool" where
  \<comment> \<open>\<^verbatim>\<open>shouldEscape(c, encodeHost)\<close>\<close>
  "shouldEscapeHost c \<longleftrightarrow>
     \<not> (isAlpha c \<or> isDigit c \<or> c \<in> set ''!$&'()*+,;=:[]<>\"'' \<or> c \<in> set ''-_.~'')"

fun unescape :: "encoding \<Rightarrow> string \<Rightarrow> error option" where
  "unescape mode [] = None"
| "unescape mode (c # s) =
     (if c = CHR ''%'' then
        (case s of
           a # b # s' \<Rightarrow>
             if \<not> ishex a \<or> \<not> ishex b then Some (EscapeError [c, a, b])
             else if mode = encodeHost \<and> unhex a < 8 \<and> [c, a, b] \<noteq> ''%25''
               then Some (EscapeError [c, a, b])
             else if mode = encodeZone \<and> [c, a, b] \<noteq> ''%25'' \<and> unhex a * 16 + unhex b \<noteq> 32
                     \<and> shouldEscapeHost (byte (unhex a * 16 + unhex b))
               then Some (EscapeError [c, a, b])
             else unescape mode s'
         | _ \<Rightarrow> Some (EscapeError (c # s)))
      else if (mode = encodeHost \<or> mode = encodeZone) \<and> (of_char c :: nat) < 128
              \<and> shouldEscapeHost c
        then Some (InvalidHostError [c])
      else unescape mode s)"

definition validOptionalPort :: "string \<Rightarrow> bool" where
  "validOptionalPort port =
     (case port of [] \<Rightarrow> True | c # ds \<Rightarrow> c = CHR '':'' \<and> list_all isDigit ds)"

definition validUserinfo :: "string \<Rightarrow> bool" where
  "validUserinfo s =
     list_all (\<lambda>r. isAlpha r \<or> isDigit r \<or> r \<in> set ''-._:~!$&'()*+,;=%@'') s"

definition firstError :: "error option \<Rightarrow> error option \<Rightarrow> error option" where
  \<comment> \<open>two calls in sequence, the second one made only when the first returns \<^verbatim>\<open>nil\<close>\<close>
  "firstError e1 e2 = (case e1 of Some e \<Rightarrow> Some e | None \<Rightarrow> e2)"

definition parseHost :: "string \<Rightarrow> error option" where
  "parseHost host =
     (if HasPrefix host ''[''
      then (case LastIndexByte host CHR '']'' of
              None \<Rightarrow> Some (errors_New ''missing ']' in host'')
            | Some i \<Rightarrow>
                if \<not> validOptionalPort (drop (Suc i) host)
                then Some (InvalidPortError (drop (Suc i) host))
                else (case Index (take i host) ''%25'' of
                        Some zone \<Rightarrow>
                          firstError (unescape encodeHost (take zone host))
                            (firstError (unescape encodeZone (drop zone (take i host)))
                               (unescape encodeHost (drop i host)))
                      | None \<Rightarrow> unescape encodeHost host))
      else (case LastIndexByte host CHR '':'' of
              Some i \<Rightarrow>
                if \<not> validOptionalPort (drop i host) then Some (InvalidPortError (drop i host))
                else unescape encodeHost host
            | None \<Rightarrow> unescape encodeHost host))"

definition parseAuthority :: "string \<Rightarrow> error option" where
  "parseAuthority authority =
     (case LastIndexByte authority CHR ''@'' of
        None \<Rightarrow> parseHost authority
      | Some i \<Rightarrow>
          firstError (parseHost (drop (Suc i) authority))
            (let userinfo = take i authority in
             if \<not> validUserinfo userinfo then Some (errors_New ''net/url: invalid userinfo'')
             else if CHR '':'' \<notin> set userinfo then unescape encodeUserPassword userinfo
             else (case Cut userinfo CHR '':'' of (username, password) \<Rightarrow>
                     firstError (unescape encodeUserPassword username)
                       (unescape encodeUserPassword password))))"

definition parse :: "string \<Rightarrow> error option" where
  \<comment> \<open>\<^verbatim>\<open>parse(rawURL, viaRequest)\<close> with \<^verbatim>\<open>viaRequest = false\<close>, as \<^verbatim>\<open>Parse\<close> calls it\<close>
  "parse rawURL =
     (if stringContainsCTLByte rawURL
      then Some (errors_New ''net/url: invalid control character in URL'')
      else if rawURL = ''*'' then None
      else (case getScheme rawURL 0 rawURL of
              Inl e \<Rightarrow> Some e
            | Inr (scheme, rest0) \<Rightarrow>
                let rest = (if rest0 \<noteq> [] \<and> last rest0 = CHR ''?'' \<and> count_list rest0 CHR ''?'' = 1
                            then butlast rest0 else fst (Cut rest0 CHR ''?''))
                in if \<not> HasPrefix rest ''/'' \<and> scheme \<noteq> [] then None
                   else if \<not> HasPrefix rest ''/'' \<and> CHR '':'' \<in> set (fst (Cut rest CHR ''/''))
                     then Some (errors_New ''first path segment in URL cannot contain colon'')
                   else if (scheme \<noteq> [] \<or> \<not> HasPrefix rest ''///'') \<and> HasPrefix rest ''//''
                     then (let authority = takeWhile (\<lambda>c. c \<noteq> CHR ''/'') (drop 2 rest);
                               path = dropWhile (\<lambda>c. c \<noteq> CHR ''/'') (drop 2 rest)
                           in firstError (parseAuthority authority) (unescape encodePath path))
                   else unescape encodePath rest))"

definition url_Parse :: "string \<Rightarrow> error option" where
  "url_Parse rawURL =
     (case Cut rawURL CHR ''#'' of (u, frag) \<Rightarrow>
        firstError (parse u) (if frag = [] then None else unescape encodeFragment frag))"

section \<open>encoding/json\<close>

text \<open>
  \<^verbatim>\<open>json.Unmarshal\<close> of the Go standard library first runs its scanner over all the
  bytes (\<^verbatim>\<open>checkValid\<close>) and decodes only a valid JSON text. The scanner is a state
  machine: one step function per state, a stack \<^verbatim>\<open>parseState\<close> of the open objects
  and arrays, at most \<^verbatim>\<open>maxNestingDepth\<close> of them. The model takes the steps of the
  scanner and, on the same pass, keeps what the decoder reads on its second pass: the
  text of the literal being read and the members of every open object and array.
  A string value is kept as it is written, escapes included.
\<close>

datatype json =
    JNull
  | JBool bool
  | JNumber string
  | JString string
  | JArray "json list"
  | JObject "(string \<times> json) list"

datatype frame =
    parseObjectKey "(string \<times> json) list"
  | parseObjectValue "(string \<times> json) list" string
  | parseArrayValue "json list"

datatype step =
    stateBeginValue
  | stateBeginValueOrEmpty
  | stateBeginStringOrEmpty
  | stateBeginString
  | stateEndValue
  | stateEndTop
  | stateInString
  | stateInStringEsc
  | stateInStringEscU nat
  | stateNeg
  | state1
  | state0
  | stateDot
  | stateDot0
  | stateE
  | stateESign
  | stateE0
  | stateLiteral char string json
  | stateError string

text \<open>
  \<^term>\<open>stateInStringEscU\<close> counts the hexadecimal digits read after \<^verbatim>\<open>\u\<close>;
  \<^term>\<open>stateLiteral\<close> stands for the states inside \<^verbatim>\<open>true\<close>, \<^verbatim>\<open>false\<close> and
  \<^verbatim>\<open>null\<close>, with the byte that must come next, the bytes after it and the value.
\<close>

record scanner =
  step :: step
  parseState :: "frame list"
  lit :: string
  result :: json

definition maxNestingDepth :: nat where
  "maxNestingDepth = 10000"

definition isSpace :: "char \<Rightarrow> bool" where
  "isSpace c \<longleftrightarrow> c = CHR '' '' \<or> c = CHR 0x09 \<or> c = CHR 0x0D \<or> c = CHR 0x0A"

text \<open>
  \<^verbatim>\<open>s.error(c, context)\<close>: the library's message is \<^verbatim>\<open>invalid character\<close>, the byte
  \<^verbatim>\<open>c\<close> in quotes and the context; the model keeps the context.
\<close>

definition scanError :: "scanner \<Rightarrow> string \<Rightarrow> scanner" where
  "scanError s context = s\<lparr>step := stateError context\<rparr>"

definition pushParseState :: "scanner \<Rightarrow> frame \<Rightarrow> step \<Rightarrow> scanner" where
  "pushParseState s newParseState successState =
     (if Suc (length (parseState s)) \<le> maxNestingDepth
      then s\<lparr>parseState := newParseState # parseState s, step := successState\<rparr>
      else scanError s ''exceeded max depth'')"

definition popParseState :: "scanner \<Rightarrow> json \<Rightarrow> scanner" where
  \<comment> \<open>the second argument is the object or array that is closed\<close>
  "popParseState s v =
     s\<lparr>parseState := tl (parseState s), result := v,
       step := (if tl (parseState s) = [] then stateEndTop else stateEndValue)\<rparr>"

definition endTop :: "scanner \<Rightarrow> char \<Rightarrow> scanner" where
  "endTop s c = (if isSpace c then s else scanError s ''after top-level value'')"

definition endValue :: "scanner \<Rightarrow> char \<Rightarrow> scanner" where
  "endValue s c =
     (case parseState s of
        [] \<Rightarrow> endTop (s\<lparr>step := stateEndTop\<rparr>) c
      | ps # rest \<Rightarrow>
          if isSpace c then s\<lparr>step := stateEndValue\<rparr>
          else (case ps of
             parseObjectKey members \<Rightarrow>
               if c = CHR '':''
               then s\<lparr>parseState := parseObjectValue members (lit s) # rest, step := stateBeginValue\<rparr>
               else scanError s ''after object key''
           | parseObjectValue members key \<Rightarrow>
               if c = CHR '',''
               then s\<lparr>parseState := parseObjectKey (members @ [(key, result s)]) # rest,
                      step := stateBeginString\<rparr>
               else if c = CHR ''}''
               then popParseState s (JObject (members @ [(key, result s)]))
               else scanError s ''after object key:value pair''
           | parseArrayValue elems \<Rightarrow>
               if c = CHR '',''
               then s\<lparr>parseState := parseArrayValue (elems @ [result s]) # rest,
                      step := stateBeginValue\<rparr>
               else if c = CHR '']''
               then popParseState s (JArray (elems @ [result s]))
               else scanError s ''after array element''))"

definition beginValue :: "scanner \<Rightarrow> char \<Rightarrow> scanner" where
  "beginValue s c =
     (if isSpace c then s
      else if c = CHR ''{'' then pushParseState s (parseObjectKey []) stateBeginStringOrEmpty
      else if c = CHR ''['' then pushParseState s (parseArrayValue []) stateBeginValueOrEmpty
      else if c = CHR 0x22 then s\<lparr>step := stateInString, lit := []\<rparr>
      else if c = CHR ''-'' then s\<lparr>step := stateNeg, lit := [c]\<rparr>
      else if c = CHR ''0'' then s\<lparr>step := state0, lit := [c]\<rparr>
      else if c = CHR ''t'' then s\<lparr>step := stateLiteral CHR ''r'' ''ue'' (JBool True)\<rparr>
      else if c = CHR ''f'' then s\<lparr>step := stateLiteral CHR ''a'' ''lse'' (JBool False)\<rparr>
      else if c = CHR ''n'' then s\<lparr>step := stateLiteral CHR ''u'' ''ll'' JNull\<rparr>
      else if isDigit c then s\<lparr>step := state1, lit := [c]\<rparr>
      else scanError s ''looking for beginning of value'')"

definition beginString :: "scanner \<Rightarrow> char \<Rightarrow> scanner" where
  "beginString s c =
     (if isSpace c then s
      else if c = CHR 0x22 then s\<lparr>step := stateInString, lit := []\<rparr>
      else scanError s ''looking for beginning of object key string'')"

definition endNumber :: "scanner \<Rightarrow> char \<Rightarrow> scanner" where
  \<comment> \<open>the byte after a number: \<^verbatim>\<open>stateEndValue(s, c)\<close>, the number being the value read\<close>
  "endNumber s c = endValue (s\<lparr>result := JNumber (lit s)\<rparr>) c"

definition number0 :: "scanner \<Rightarrow> char \<Rightarrow> scanner" where
  \<comment> \<open>\<^verbatim>\<open>state0\<close>: after a leading zero, and after the digits of an integer\<close>
  "number0 s c =
     (if c = CHR ''.'' then s\<lparr>step := stateDot, lit := lit s @ [c]\<rparr>
      else if c = CHR ''e'' \<or> c = CHR ''E'' then s\<lparr>step := stateE, lit := lit s @ [c]\<rparr>
      else endNumber s c)"

definition numberESign :: "scanner \<Rightarrow> char \<Rightarrow> scanner" where
  "numberESign s c =
     (if isDigit c then s\<lparr>step := stateE0, lit := lit s @ [c]\<rparr>
      else scanError s ''in exponent of numeric literal'')"

definition literalName :: "json \<Rightarrow> string" where
  "literalName v = (case v of JBool True \<Rightarrow> ''true'' | JBool False \<Rightarrow> ''false'' | _ \<Rightarrow> ''null'')"

definition scanStep :: "scanner \<Rightarrow> char \<Rightarrow> scanner" where
  \<comment> \<open>\<^verbatim>\<open>s.step(s, c)\<close>\<close>
  "scanStep s c =
     (case step s of
        stateBeginValue \<Rightarrow> beginValue s c
      | stateBeginValueOrEmpty \<Rightarrow>
          if isSpace c then s
          else if c = CHR '']'' then popParseState s (JArray [])
          else beginValue s c
      | stateBeginStringOrEmpty \<Rightarrow>
          if isSpace c then s
          else if c = CHR ''}'' then popParseState s (JObject [])
          else beginString s c
      | stateBeginString \<Rightarrow> beginString s c
      | stateEndValue \<Rightarrow> endValue s c
      | stateEndTop \<Rightarrow> endTop s c
      | stateInString \<Rightarrow>
          if c = CHR 0x22 then s\<lparr>step := stateEndValue, result := JString (lit s)\<rparr>
          else if c = CHR 0x5C then s\<lparr>step := stateInStringEsc, lit := lit s @ [c]\<rparr>
          else if (of_char c :: nat) < 32 then scanError s ''in string literal''
          else s\<lparr>lit := lit s @ [c]\<rparr>
      | stateInStringEsc \<Rightarrow>
          if c \<in> set ''bfnrt'' \<or> c = CHR 0x5C \<or> c = CHR ''/'' \<or> c = CHR 0x22
          then s\<lparr>step := stateInString, lit := lit s @ [c]\<rparr>
          else if c = CHR ''u'' then s\<lparr>step := stateInStringEscU 0, lit := lit s @ [c]\<rparr>
          else scanError s ''in string escape code''
      | stateInStringEscU k \<Rightarrow>
          if ishex c
          then s\<lparr>step := (if k = 3 then stateInString else stateInStringEscU (Suc k)),
                 lit := lit s @ [c]\<rparr>
          else scanError s (''in '' @ [CHR 0x5C] @ ''u hexadecimal character escape'')
      | stateNeg \<Rightarrow>
          if c = CHR ''0'' then s\<lparr>step := state0, lit := lit s @ [c]\<rparr>
          else if isDigit c then s\<lparr>step := state1, lit := lit s @ [c]\<rparr>
          else scanError s ''in numeric literal''
      | state1 \<Rightarrow>
          if isDigit c then s\<lparr>lit := lit s @ [c]\<rparr> else number0 s c
      | state0 \<Rightarrow> number0 s c
      | stateDot \<Rightarrow>
          if isDigit c then s\<lparr>step := stateDot0, lit := lit s @ [c]\<rparr>
          else scanError s ''after decimal point in numeric literal''
      | stateDot0 \<Rightarrow>
          if isDigit c then s\<lparr>lit := lit s @ [c]\<rparr>
          else if c = CHR ''e'' \<or> c = CHR ''E'' then s\<lparr>step := stateE, lit := lit s @ [c]\<rparr>
          else endNumber s c
      | stateE \<Rightarrow>
          if c = CHR ''+'' \<or> c = CHR ''-'' then s\<lparr>step := stateESign, lit := lit s @ [c]\<rparr>
          else numberESign s c
      | stateESign \<Rightarrow> numberESign s c
      | stateE0 \<Rightarrow>
          if isDigit c then s\<lparr>lit := lit s @ [c]\<rparr> else endNumber s c
      | stateLiteral x xs v \<Rightarrow>
          if c = x
          then (case xs of
                  [] \<Rightarrow> s\<lparr>step := stateEndValue, result := v\<rparr>
                | y # ys \<Rightarrow> s\<lparr>step := stateLiteral y ys v\<rparr>)
          else scanError s
                 (''in literal '' @ literalName v @ '' (expecting '' @ [CHR 0x27, x, CHR 0x27] @ '')'')
      | stateError e \<Rightarrow> s)"

text \<open>
  \<^verbatim>\<open>checkValid\<close>: the bytes are scanned in order, up to the first one that the scanner
  rejects; then \<^verbatim>\<open>eof\<close> tells whether a whole value was read.
\<close>

fun scanBytes :: "scanner \<Rightarrow> string \<Rightarrow> scanner" where
  "scanBytes s [] = s"
| "scanBytes s (c # data) =
     (case step (scanStep s c) of
        stateError e \<Rightarrow> scanStep s c
      | _ \<Rightarrow> scanBytes (scanStep s c) data)"

definition eof :: "scanner \<Rightarrow> error + json" where
  "eof s =
     (case step s of
        stateError e \<Rightarrow> Inl (SyntaxError e)
      | stateEndTop \<Rightarrow> Inr (result s)
      | _ \<Rightarrow>
          (case step (scanStep s CHR '' '') of
             stateEndTop \<Rightarrow> Inr (result (scanStep s CHR '' ''))
           | stateError e \<Rightarrow> Inl (SyntaxError e)
           | _ \<Rightarrow> Inl (SyntaxError ''unexpected end of JSON input'')))"

definition scan :: "string \<Rightarrow> error + json" where
  "scan data =
     eof (scanBytes \<lparr>step = stateBeginValue, parseState = [], lit = [], result = JNull\<rparr> data)"

text \<open>
  \<^verbatim>\<open>unquote\<close>: the bytes that a string literal stands for. An escape is replaced by
  the character it names, with \<^verbatim>\<open>\u\<close> escapes (and pairs of them that are UTF-16
  surrogates) encoded as UTF-8; a byte that does not begin a well-formed UTF-8
  sequence is replaced by U+FFFD.
\<close>

definition replacementChar :: string where
  "replacementChar = [CHR 0xEF, CHR 0xBF, CHR 0xBD]"

definition EncodeRune :: "nat \<Rightarrow> string" where
  "EncodeRune r =
     (if r \<le> 127 then [byte r]
      else if r \<le> 2047 then [byte (192 + r div 64), byte (128 + r mod 64)]
      else if r > 1114111 \<or> (55296 \<le> r \<and> r \<le> 57343) then replacementChar
      else if r \<le> 65535
        then [byte (224 + r div 4096), byte (128 + r div 64 mod 64), byte (128 + r mod 64)]
      else [byte (240 + r div 262144), byte (128 + r div 4096 mod 64),
            byte (128 + r div 64 mod 64), byte (128 + r mod 64)])"

definition between :: "nat \<Rightarrow> nat \<Rightarrow> char \<Rightarrow> bool" where
  "between lo hi c \<longleftrightarrow> lo \<le> (of_char c :: nat) \<and> (of_char c :: nat) \<le> hi"

definition continuation :: "string \<Rightarrow> nat \<Rightarrow> bool" where
  \<comment> \<open>the byte at this index exists and is in \<^verbatim>\<open>0x80 .. 0xBF\<close>\<close>
  "continuation p i \<longleftrightarrow> i < length p \<and> between 128 191 (p ! i)"

definition DecodeRuneSize :: "string \<Rightarrow> nat" where
  \<comment> \<open>the size that \<^verbatim>\<open>utf8.DecodeRune\<close> returns for bytes that begin beyond ASCII,
      and 0 where it returns \<^verbatim>\<open>RuneError\<close> with size 1\<close>
  "DecodeRuneSize p =
     (case p of
        [] \<Rightarrow> 0
      | p0 # ps \<Rightarrow>
          if between 194 223 p0 then (if continuation p 1 then 2 else 0)
          else if between 224 239 p0 then
            (if 1 < length p
                \<and> between (if of_char p0 = (224::nat) then 160 else 128)
                           (if of_char p0 = (237::nat) then 159 else 191) (p ! 1)
                \<and> continuation p 2 then 3 else 0)
          else if between 240 244 p0 then
            (if 1 < length p
                \<and> between (if of_char p0 = (240::nat) then 144 else 128)
                           (if of_char p0 = (244::nat) then 143 else 191) (p ! 1)
                \<and> continuation p 2 \<and> continuation p 3 then 4 else 0)
          else 0)"

definition getu4 :: "string \<Rightarrow> nat option" where
  \<comment> \<open>the number that \<^verbatim>\<open>\uXXXX\<close> at the head of the bytes gives; \<^term>\<open>None\<close> is \<^verbatim>\<open>-1\<close>\<close>
  "getu4 s =
     (case s of
        b # u # h1 # h2 # h3 # h4 # s' \<Rightarrow>
          if b = CHR 0x5C \<and> u = CHR ''u'' \<and> ishex h1 \<and> ishex h2 \<and> ishex h3 \<and> ishex h4
          then Some (unhex h1 * 4096 + unhex h2 * 256 + unhex h3 * 16 + unhex h4)
          else None
      | _ \<Rightarrow> None)"

definition unescapeChar :: "char \<Rightarrow> char" where
  "unescapeChar e =
     (if e = CHR ''b'' then CHR 0x08
      else if e = CHR ''f'' then CHR 0x0C
      else if e = CHR ''n'' then CHR 0x0A
      else if e = CHR ''r'' then CHR 0x0D
      else if e = CHR ''t'' then CHR 0x09
      else e)"

text \<open>
  \<open>unquoteBytes keep skip s\<close> reads \<open>s\<close> from the left; the first \<open>skip\<close> bytes have been
  decoded already (the rest of an escape), the \<open>keep\<close> bytes after them are copied as
  they are (the rest of a well-formed UTF-8 sequence).
\<close>

fun unquoteBytes :: "nat \<Rightarrow> nat \<Rightarrow> string \<Rightarrow> string" where
  "unquoteBytes keep skip [] = []"
| "unquoteBytes keep (Suc skip) (c # s) = unquoteBytes keep skip s"
| "unquoteBytes (Suc keep) 0 (c # s) = c # unquoteBytes keep 0 s"
| "unquoteBytes 0 0 (c # s) =
     (if c = CHR 0x5C then
        (case s of
           [] \<Rightarrow> []
         | e # s' \<Rightarrow>
             if e = CHR ''u'' then
               (case getu4 (c # s) of
                  None \<Rightarrow> []
                | Some rr \<Rightarrow>
                    if 55296 \<le> rr \<and> rr < 57344 then
                      (case getu4 (drop 5 s) of
                         Some rr1 \<Rightarrow>
                           if rr < 56320 \<and> 56320 \<le> rr1 \<and> rr1 < 57344
                           then EncodeRune ((rr - 55296) * 1024 + (rr1 - 56320) + 65536)
                                  @ unquoteBytes 0 11 s
                           else replacementChar @ unquoteBytes 0 5 s
                       | None \<Rightarrow> replacementChar @ unquoteBytes 0 5 s)
                    else EncodeRune rr @ unquoteBytes 0 5 s)
             else unescapeChar e # unquoteBytes 0 1 s)
      else if (of_char c :: nat) < 128 then c # unquoteBytes 0 0 s
      else if DecodeRuneSize (c # s) = 0 then replacementChar @ unquoteBytes 0 0 s
      else c # unquoteBytes (DecodeRuneSize (c # s) - 1) 0 s)"

definition unquote :: "string \<Rightarrow> string" where
  "unquote s = unquoteBytes 0 0 s"

section \<open>The loaders of \<^verbatim>\<open>parse.go\<close>\<close>

text \<open>
  \<^verbatim>\<open>log.Fatalln\<close> writes its arguments to the log and ends the process with
  \<^verbatim>\<open>os.Exit(1)\<close>; nothing after the call runs. A run of a loader therefore has one of
  two outcomes: the process was terminated (with the message and the error that were
  logged), or the loader returned a configuration.
\<close>

datatype 'a outcome = Fatalln string "error option" | Returned 'a

text \<open>
  Modelled from the spec: the declaration of the struct \<^verbatim>\<open>Runtime\<close> is not among the
  sources. \<^verbatim>\<open>ParseRuntime\<close> reads its field \<^verbatim>\<open>APIBaseURL\<close> and writes its field
  \<^verbatim>\<open>DeployID\<close>, both strings; the spec names no other field ("a structured value
  containing at least an API base URL and a deploy identifier"). The other fields are
  the extension of the record.
\<close>

record Runtime =
  APIBaseURL :: string
  DeployID :: string

text \<open>
  Lines 18 to 25 of \<^verbatim>\<open>ParseRuntime\<close>: the two decoding attempts. Next to the bytes and
  the error the model returns the library calls that were made, in order.
\<close>

datatype call = StdEncoding_DecodeString | RawURLEncoding_DecodeString

definition decodeRuntime :: "string \<Rightarrow> call list \<times> string \<times> error option" where
  "decodeRuntime config =
     (case DecodeString StdEncoding config of
        (bytes, None) \<Rightarrow> ([StdEncoding_DecodeString], bytes, None)
      | (bytes, Some err) \<Rightarrow>
          (case DecodeString RawURLEncoding config of
             (bytes', err') \<Rightarrow>
               ([StdEncoding_DecodeString, RawURLEncoding_DecodeString], bytes', err')))"

text \<open>
  \<^verbatim>\<open>ParseRuntime(config, deployID)\<close>. What \<^verbatim>\<open>json.Unmarshal(bytes, &cfg)\<close> stores in a
  zero \<^verbatim>\<open>Runtime\<close> depends on the declaration of \<^verbatim>\<open>Runtime\<close>, which is missing; it is
  the parameter \<open>unmarshal\<close>, from the bytes to the error or the filled struct.
\<close>

definition ParseRuntime ::
  "(string \<Rightarrow> error + 'm Runtime_scheme) \<Rightarrow> string \<Rightarrow> string \<Rightarrow> 'm Runtime_scheme outcome" where
  "ParseRuntime unmarshal config deployID =
     (if config = [] then
        Fatalln ''encore runtime: fatal error: no encore runtime config provided'' None
      else case decodeRuntime config of
        (calls, bytes, Some err) \<Rightarrow>
          Fatalln ''encore runtime: fatal error: could not decode encore runtime config:'' (Some err)
      | (calls, bytes, None) \<Rightarrow>
          (case unmarshal bytes of
             Inl err \<Rightarrow>
               Fatalln ''encore runtime: fatal error: could not parse encore runtime config:''
                 (Some err)
           | Inr cfg \<Rightarrow>
               (case url_Parse (APIBaseURL cfg) of
                  Some err \<Rightarrow>
                    Fatalln
                      ''encore runtime: fatal error: could not parse api base url from encore runtime config:''
                      (Some err)
                | None \<Rightarrow>
                    Returned (if deployID \<noteq> [] then cfg\<lparr>DeployID := deployID\<rparr> else cfg))))"

text \<open>
  \<^verbatim>\<open>ParseStatic(config)\<close>. The struct \<^verbatim>\<open>Static\<close> is not among the sources either and the
  loader touches none of its fields: it is a type variable, and \<open>unmarshal\<close> stands for
  \<^verbatim>\<open>json.Unmarshal(bytes, &cfg)\<close> on a zero \<^verbatim>\<open>Static\<close>.
\<close>

definition ParseStatic :: "(string \<Rightarrow> error + 's) \<Rightarrow> string \<Rightarrow> 's outcome" where
  "ParseStatic unmarshal config =
     (if config = [] then
        Fatalln ''encore runtime: fatal error: no encore static config provided'' None
      else case DecodeString StdEncoding config of
        (bytes, Some err) \<Rightarrow>
          Fatalln ''encore runtime: fatal error: could not decode encore static config:'' (Some err)
      | (bytes, None) \<Rightarrow>
          (case unmarshal bytes of
             Inl err \<Rightarrow>
               Fatalln ''encore runtime: fatal error: could not parse encore static config:''
                 (Some err)
           | Inr cfg \<Rightarrow> Returned cfg))"

section \<open>Decoding a \<^verbatim>\<open>Runtime\<close>\<close>

text \<open>
  Modelled from the spec: \<^verbatim>\<open>json.Unmarshal\<close> into a \<^verbatim>\<open>Runtime\<close> follows the declaration
  of the struct, which is missing. The spec gives the shape of the payload in its
  scenarios, \<^verbatim>\<open>{"APIBaseURL":"https://api.example.com","DeployID":"abc123"}\<close>: two
  string fields without a field tag, which the library therefore finds under their own
  names. \<open>Unmarshal_Runtime\<close> is \<^verbatim>\<open>json.Unmarshal(bytes, &cfg)\<close> for a struct of exactly
  these two fields and \<^verbatim>\<open>cfg\<close> zero, as the library decodes a struct: a member is
  stored in the field whose name equals its key when letter case is ignored, a member
  with any other key is skipped, \<^verbatim>\<open>null\<close> leaves the field as it is, a value that is no
  string is an \<^verbatim>\<open>UnmarshalTypeError\<close> (the first one is reported, after the rest has
  been decoded), and a top-level \<^verbatim>\<open>null\<close> leaves the struct zero.
\<close>

definition toUpper :: "char \<Rightarrow> char" where
  "toUpper c = (if between 97 122 c then byte (of_char c - 32) else c)"

fun foldName :: "string \<Rightarrow> string" where
  \<comment> \<open>upper case for ASCII letters; U+017F (long s) and U+212A (Kelvin sign) are the
      characters beyond ASCII that fold to an ASCII letter\<close>
  "foldName (a # b # c # s) =
     (if [a, b, c] = [CHR 0xE2, CHR 0x84, CHR 0xAA] then CHR ''K'' # foldName s
      else if [a, b] = [CHR 0xC5, CHR 0xBF] then CHR ''S'' # foldName (c # s)
      else toUpper a # foldName (b # c # s))"
| "foldName [a, b] =
     (if [a, b] = [CHR 0xC5, CHR 0xBF] then ''S'' else [toUpper a, toUpper b])"
| "foldName [a] = [toUpper a]"
| "foldName [] = []"

definition saveError :: "error option \<Rightarrow> error \<Rightarrow> error option" where
  "saveError savedError err = (case savedError of None \<Rightarrow> Some err | Some e \<Rightarrow> Some e)"

definition literalStore ::
  "json \<Rightarrow> (string \<Rightarrow> Runtime) \<Rightarrow> Runtime \<Rightarrow> error option \<Rightarrow> Runtime \<times> error option" where
  \<comment> \<open>a value for a field of kind string; the second argument sets the field\<close>
  "literalStore v SetString cfg savedError =
     (case v of
        JString s \<Rightarrow> (SetString (unquote s), savedError)
      | JNull \<Rightarrow> (cfg, savedError)
      | JBool b \<Rightarrow> (cfg, saveError savedError (UnmarshalTypeError ''bool''))
      | JNumber n \<Rightarrow> (cfg, saveError savedError (UnmarshalTypeError ''number''))
      | JArray elems \<Rightarrow> (cfg, saveError savedError (UnmarshalTypeError ''array''))
      | JObject members \<Rightarrow> (cfg, saveError savedError (UnmarshalTypeError ''object'')))"

definition member :: "string \<times> json \<Rightarrow> Runtime \<times> error option \<Rightarrow> Runtime \<times> error option" where
  "member kv state =
     (case (kv, state) of
        ((key, v), (cfg, savedError)) \<Rightarrow>
          if foldName (unquote key) = foldName ''APIBaseURL''
          then literalStore v (\<lambda>s. cfg\<lparr>APIBaseURL := s\<rparr>) cfg savedError
          else if foldName (unquote key) = foldName ''DeployID''
          then literalStore v (\<lambda>s. cfg\<lparr>DeployID := s\<rparr>) cfg savedError
          else (cfg, savedError))"

definition Unmarshal_Runtime :: "string \<Rightarrow> error + Runtime" where
  "Unmarshal_Runtime data =
     (case scan data of
        Inl err \<Rightarrow> Inl err
      | Inr v \<Rightarrow>
          (case v of
             JObject members \<Rightarrow>
               (case fold member members (\<lparr>APIBaseURL = [], DeployID = []\<rparr>, None) of
                  (cfg, None) \<Rightarrow> Inr cfg
                | (cfg, Some err) \<Rightarrow> Inl err)
           | JNull \<Rightarrow> Inr \<lparr>APIBaseURL = [], DeployID = []\<rparr>
           | JBool b \<Rightarrow> Inl (UnmarshalTypeError ''bool'')
           | JNumber n \<Rightarrow> Inl (UnmarshalTypeError ''number'')
           | JString s \<Rightarrow> Inl (UnmarshalTypeError ''string'')
           | JArray elems \<Rightarrow> Inl (UnmarshalTypeError ''array'')))"

section \<open>Properties of the base64 encodings\<close>

lemma wellformed_StdEncoding: "wellformed StdEncoding"
  by (simp add: wellformed_def StdEncoding_def encodeStd_def isNewline_def)

lemma wellformed_RawURLEncoding: "wellformed RawURLEncoding"
  by (simp add: wellformed_def RawURLEncoding_def encodeURL_def)

lemma fillDecodeMap_notin: "c \<notin> set cs \<Longrightarrow> fillDecodeMap cs i m c = m c"
  by (induction cs arbitrary: i m) auto

lemma fillDecodeMap_nth:
  "distinct cs \<Longrightarrow> k < length cs \<Longrightarrow> fillDecodeMap cs i m (cs ! k) = Some (i + k)"
proof (induction cs arbitrary: i m k)
  case Nil
  then show ?case by simp
next
  case (Cons c cs)
  show ?case
  proof (cases k)
    case 0
    with Cons.prems show ?thesis by (simp add: fillDecodeMap_notin)
  next
    case (Suc k')
    from Cons.prems Suc have "distinct cs" and "k' < length cs"
      by simp_all
    then have "fillDecodeMap cs (Suc i) (m(c \<mapsto> i)) (cs ! k') = Some (Suc i + k')"
      by (rule Cons.IH)
    with Suc show ?thesis by simp
  qed
qed

lemma decodeMap_sextet: "wellformed enc \<Longrightarrow> decodeMap enc (sextet enc v) = Some (v mod 64)"
  using fillDecodeMap_nth [of "encode enc" "v mod 64" 0 Map.empty]
  by (simp add: wellformed_def decodeMap_def sextet_def)

lemma decodeMap_padChar: "wellformed enc \<Longrightarrow> padChar enc = Some p \<Longrightarrow> decodeMap enc p = None"
  by (simp add: wellformed_def decodeMap_def fillDecodeMap_notin)

lemma byte_char_of: "byte n = char_of n"
  by (simp add: byte_def char_of_def bit_iff_odd)

lemma byte_of_char: "byte (of_char c) = c"
  by (simp add: byte_char_of)

lemma sextets_val:
  fixes val :: nat
  assumes "val < 16777216"
  shows "((val div 262144) mod 64) * 262144 + ((val div 4096) mod 64) * 4096
           + ((val div 64) mod 64) * 64 + val mod 64 = val"
proof -
  define q1 where "q1 = val div 64"
  define q2 where "q2 = val div 4096"
  define q3 where "q3 = val div 262144"
  have e1: "val = 64 * q1 + val mod 64"
    by (simp add: q1_def)
  have "q2 = q1 div 64"
    by (simp add: q1_def q2_def div_mult2_eq)
  then have e2: "q1 = 64 * q2 + q1 mod 64"
    by simp
  have "q3 = q2 div 64"
    by (simp add: q2_def q3_def div_mult2_eq)
  then have e3: "q2 = 64 * q3 + q2 mod 64"
    by simp
  have "q3 < 64"
    using assms by (simp add: q3_def less_mult_imp_div_less)
  then have e4: "q3 mod 64 = q3"
    by simp
  have "(q3 mod 64) * 262144 + (q2 mod 64) * 4096 + (q1 mod 64) * 64 + val mod 64 = val"
    using e1 e2 e3 e4 by linarith
  then show ?thesis
    by (simp only: q1_def q2_def q3_def)
qed

lemma split256:
  fixes c w :: nat
  assumes "c < 256"
  shows "(c + 256 * w) mod 256 = c" and "(c + 256 * w) div 256 = w"
  using assms by simp_all

lemma bytes_val:
  fixes a b c :: nat
  assumes "a < 256" "b < 256" "c < 256"
  shows "(a * 65536 + b * 256 + c) div 65536 mod 256 = a"
    and "(a * 65536 + b * 256 + c) div 256 mod 256 = b"
    and "(a * 65536 + b * 256 + c) mod 256 = c"
    and "a * 65536 + b * 256 + c < 16777216"
proof -
  let ?v = "a * 65536 + b * 256 + c"
  have v: "?v = c + 256 * (b + 256 * a)"
    by simp
  have m: "?v mod 256 = c"
    by (simp only: v split256 [OF assms(3)])
  have d: "?v div 256 = b + 256 * a"
    by (simp only: v split256 [OF assms(3)])
  have "?v div 65536 = ?v div 256 div 256"
    by (simp add: div_mult2_eq)
  then have d2: "?v div 65536 = a"
    by (simp only: d split256 [OF assms(2)])
  show "?v div 65536 mod 256 = a"
    by (simp only: d2 mod_less [OF assms(1)])
  show "?v div 256 mod 256 = b"
    by (simp only: d split256 [OF assms(2)])
  show "?v mod 256 = c"
    by (rule m)
  show "?v < 16777216"
    using assms by simp
qed

lemma assemble_4:
  "assemble enc si [d0, d1, d2, d3] =
     ([byte ((d0 * 262144 + d1 * 4096 + d2 * 64 + d3) div 65536 mod 256),
       byte ((d0 * 262144 + d1 * 4096 + d2 * 64 + d3) div 256 mod 256),
       byte ((d0 * 262144 + d1 * 4096 + d2 * 64 + d3) mod 256)], None)"
  by (simp add: assemble_def Let_def)

lemma assemble_3:
  "\<not> strict enc \<Longrightarrow> assemble enc si [d0, d1, d2] =
     ([byte ((d0 * 262144 + d1 * 4096 + d2 * 64 + 0) div 65536 mod 256),
       byte ((d0 * 262144 + d1 * 4096 + d2 * 64 + 0) div 256 mod 256)], None)"
  by (simp add: assemble_def Let_def)

lemma assemble_2:
  "\<not> strict enc \<Longrightarrow> assemble enc si [d0, d1] =
     ([byte ((d0 * 262144 + d1 * 4096 + 0 * 64 + 0) div 65536 mod 256)], None)"
  by (simp add: assemble_def Let_def)

lemma assemble4:
  assumes "val = of_char a * 65536 + of_char b * 256 + (of_char c :: nat)"
  shows "assemble enc si [val div 262144 mod 64, val div 4096 mod 64, val div 64 mod 64, val mod 64]
           = ([a, b, c], None)"
proof -
  note lt256 = nat_of_char_less_256
  have lt: "val < 16777216"
    unfolding assms by (rule bytes_val(4)) simp_all
  have v: "val div 262144 mod 64 * 262144 + val div 4096 mod 64 * 4096 + val div 64 mod 64 * 64
             + val mod 64 = val"
    by (rule sextets_val [OF lt])
  have b0: "byte (val div 65536 mod 256) = a"
    unfolding assms by (simp only: bytes_val(1) [OF lt256 lt256 lt256] byte_of_char)
  have b1: "byte (val div 256 mod 256) = b"
    unfolding assms by (simp only: bytes_val(2) [OF lt256 lt256 lt256] byte_of_char)
  have b2: "byte (val mod 256) = c"
    unfolding assms by (simp only: bytes_val(3) [OF lt256 lt256 lt256] byte_of_char)
  show ?thesis
    by (simp only: assemble_4 v b0 b1 b2)
qed

lemma assemble3:
  assumes "val = of_char a * 65536 + of_char b * 256 + (0 :: nat)" and "\<not> strict enc"
  shows "assemble enc si [val div 262144 mod 64, val div 4096 mod 64, val div 64 mod 64]
           = ([a, b], None)"
proof -
  note lt256 = nat_of_char_less_256
  have z: "(0::nat) < 256" by simp
  have lt: "val < 16777216"
    unfolding assms by (rule bytes_val(4)) simp_all
  have "val = 64 * (of_char a * 1024 + of_char b * 4)"
    unfolding assms by simp
  then have m: "val mod 64 = 0"
    by (simp only: mod_mult_self1_is_0)
  have v: "val div 262144 mod 64 * 262144 + val div 4096 mod 64 * 4096 + val div 64 mod 64 * 64
             + 0 = val"
    using sextets_val [OF lt] by (simp only: m)
  have b0: "byte (val div 65536 mod 256) = a"
    unfolding assms by (simp only: bytes_val(1) [OF lt256 lt256 z] byte_of_char)
  have b1: "byte (val div 256 mod 256) = b"
    unfolding assms by (simp only: bytes_val(2) [OF lt256 lt256 z] byte_of_char)
  show ?thesis
    by (simp only: assemble_3 [OF assms(2)] v b0 b1)
qed

lemma assemble2:
  assumes "val = of_char a * 65536 + 0 * 256 + (0 :: nat)" and "\<not> strict enc"
  shows "assemble enc si [val div 262144 mod 64, val div 4096 mod 64] = ([a], None)"
proof -
  note lt256 = nat_of_char_less_256
  have z: "(0::nat) < 256" by simp
  have lt: "val < 16777216"
    unfolding assms by (rule bytes_val(4)) simp_all
  have e: "val = 64 * (64 * (of_char a * 16))"
    unfolding assms by simp
  have m1: "val mod 64 = 0"
    by (simp only: e mod_mult_self1_is_0)
  have "val div 64 = 64 * (of_char a * 16)"
    unfolding e by simp
  then have m2: "val div 64 mod 64 = 0"
    by (simp only: mod_mult_self1_is_0)
  have v: "val div 262144 mod 64 * 262144 + val div 4096 mod 64 * 4096 + 0 * 64 + 0 = val"
    using sextets_val [OF lt] by (simp only: m1 m2)
  have b0: "byte (val div 65536 mod 256) = a"
    unfolding assms by (simp only: bytes_val(1) [OF lt256 z z] byte_of_char)
  show ?thesis
    by (simp only: assemble_2 [OF assms(2)] v b0)
qed

lemma quantum4:
  assumes wf: "wellformed enc"
  shows "decodeQuantum enc n (sextet enc v0 # sextet enc v1 # sextet enc v2 # sextet enc v3 # rest) si []
     = (rest, Suc (Suc (Suc (Suc si))), fst (assemble enc (Suc (Suc (Suc (Suc si)))) [v0 mod 64, v1 mod 64, v2 mod 64, v3 mod 64]),
        snd (assemble enc (Suc (Suc (Suc (Suc si)))) [v0 mod 64, v1 mod 64, v2 mod 64, v3 mod 64]))"
  by (simp add: decodeMap_sextet [OF wf] split: prod.splits)

lemma quantum3_nopad:
  assumes wf: "wellformed enc" and np: "padChar enc = None"
  shows "decodeQuantum enc n [sextet enc v0, sextet enc v1, sextet enc v2] si []
     = ([], Suc (Suc (Suc si)), fst (assemble enc (Suc (Suc (Suc si))) [v0 mod 64, v1 mod 64, v2 mod 64]),
        snd (assemble enc (Suc (Suc (Suc si))) [v0 mod 64, v1 mod 64, v2 mod 64]))"
  by (simp add: decodeMap_sextet [OF wf] np split: prod.splits)

lemma quantum2_nopad:
  assumes wf: "wellformed enc" and np: "padChar enc = None"
  shows "decodeQuantum enc n [sextet enc v0, sextet enc v1] si []
     = ([], Suc (Suc si), fst (assemble enc (Suc (Suc si)) [v0 mod 64, v1 mod 64]),
        snd (assemble enc (Suc (Suc si)) [v0 mod 64, v1 mod 64]))"
  by (simp add: decodeMap_sextet [OF wf] np split: prod.splits)

lemma quantum3_pad:
  assumes wf: "wellformed enc" and p: "padChar enc = Some p"
  shows "decodeQuantum enc n [sextet enc v0, sextet enc v1, sextet enc v2, p] si []
     = ([], Suc (Suc (Suc (Suc si))), fst (assemble enc (Suc (Suc (Suc (Suc si)))) [v0 mod 64, v1 mod 64, v2 mod 64]),
        snd (assemble enc (Suc (Suc (Suc (Suc si)))) [v0 mod 64, v1 mod 64, v2 mod 64]))"
proof -
  from wf p have "\<not> isNewline p" and s: "\<not> strict enc"
    by (simp_all add: wellformed_def)
  then show ?thesis
    by (simp add: decodeMap_sextet [OF wf] decodeMap_padChar [OF wf p] p seenPadding_def
        endOfData_def skipNewlines_def assemble_3 [OF s])
qed

lemma quantum2_pad:
  assumes wf: "wellformed enc" and p: "padChar enc = Some p"
  shows "decodeQuantum enc n [sextet enc v0, sextet enc v1, p, p] si []
     = ([], Suc (Suc (Suc (Suc si))), fst (assemble enc (Suc (Suc (Suc (Suc si)))) [v0 mod 64, v1 mod 64]),
        snd (assemble enc (Suc (Suc (Suc (Suc si)))) [v0 mod 64, v1 mod 64]))"
proof -
  from wf p have "\<not> isNewline p" and s: "\<not> strict enc"
    by (simp_all add: wellformed_def)
  then show ?thesis
    by (simp add: decodeMap_sextet [OF wf] decodeMap_padChar [OF wf p] p seenPadding_def
        endOfData_def skipNewlines_def assemble_2 [OF s])
qed

lemma Decode_EncodeToString:
  "wellformed enc \<Longrightarrow> Decode enc n (EncodeToString enc src) si = (src, None)"
proof (induction enc src arbitrary: si rule: EncodeToString.induct)
  case (1 enc a b c src)
  define val where "val = of_char a * 65536 + of_char b * 256 + (of_char c :: nat)"
  have enc: "EncodeToString enc (a # b # c # src) =
      sextet enc (val div 262144) # sextet enc (val div 4096) # sextet enc (val div 64) #
      sextet enc val # EncodeToString enc src"
    by (simp add: val_def Let_def)
  have q: "decodeQuantum enc n (sextet enc (val div 262144) # sextet enc (val div 4096) #
        sextet enc (val div 64) # sextet enc val # EncodeToString enc src) si []
      = (EncodeToString enc src, Suc (Suc (Suc (Suc si))), [a, b, c], None)"
    by (simp only: quantum4 [OF "1.prems"] assemble4 [OF val_def] fst_conv snd_conv)
  have ih: "Decode enc n (EncodeToString enc src) (Suc (Suc (Suc (Suc si)))) = (src, None)"
    using "1.IH" "1.prems" by simp
  show ?case
    by (simp only: enc Decode.simps q ih prod.case option.case append.simps)
next
  case (2 enc a b)
  define val where "val = of_char a * 65536 + of_char b * 256 + (0 :: nat)"
  from "2.prems" have s: "\<not> strict enc"
    by (simp add: wellformed_def)
  show ?case
  proof (cases "padChar enc")
    case None
    have enc: "EncodeToString enc [a, b] =
        [sextet enc (val div 262144), sextet enc (val div 4096), sextet enc (val div 64)]"
      by (simp only: EncodeToString.simps Let_def val_def None option.case append.simps
          append_Nil2 add_0_right mult_zero_left)
    show ?thesis
      by (simp only: enc Decode.simps quantum3_nopad [OF "2.prems" None] assemble3 [OF val_def s]
          fst_conv snd_conv prod.case option.case append.simps)
  next
    case (Some p)
    have enc: "EncodeToString enc [a, b] =
        [sextet enc (val div 262144), sextet enc (val div 4096), sextet enc (val div 64), p]"
      by (simp only: EncodeToString.simps Let_def val_def Some option.case append.simps
          append_Nil2 add_0_right mult_zero_left)
    show ?thesis
      by (simp only: enc Decode.simps quantum3_pad [OF "2.prems" Some] assemble3 [OF val_def s]
          fst_conv snd_conv prod.case option.case append.simps)
  qed
next
  case (3 enc a)
  define val where "val = of_char a * 65536 + 0 * 256 + (0 :: nat)"
  from "3.prems" have s: "\<not> strict enc"
    by (simp add: wellformed_def)
  show ?case
  proof (cases "padChar enc")
    case None
    have enc: "EncodeToString enc [a] = [sextet enc (val div 262144), sextet enc (val div 4096)]"
      by (simp only: EncodeToString.simps Let_def val_def None option.case append.simps
          append_Nil2 add_0_right mult_zero_left)
    show ?thesis
      by (simp only: enc Decode.simps quantum2_nopad [OF "3.prems" None] assemble2 [OF val_def s]
          fst_conv snd_conv prod.case option.case append.simps)
  next
    case (Some p)
    have enc: "EncodeToString enc [a] = [sextet enc (val div 262144), sextet enc (val div 4096), p, p]"
      by (simp only: EncodeToString.simps Let_def val_def Some option.case append.simps
          append_Nil2 add_0_right mult_zero_left)
    show ?thesis
      by (simp only: enc Decode.simps quantum2_pad [OF "3.prems" Some] assemble2 [OF val_def s]
          fst_conv snd_conv prod.case option.case append.simps)
  qed
next
  case (4 enc)
  show ?case by simp
qed

lemma DecodeString_EncodeToString:
  "wellformed enc \<Longrightarrow> DecodeString enc (EncodeToString enc src) = (src, None)"
  by (simp add: DecodeString_def Decode_EncodeToString)

lemma EncodeToString_Nil: "EncodeToString enc src = [] \<longleftrightarrow> src = []"
  by (induction enc src rule: EncodeToString.induct) (simp_all add: Let_def)


section \<open>Properties of the loaders\<close>

lemma DecodeString_Nil: "DecodeString enc [] = ([], None)"
  by (simp add: DecodeString_def)

lemma decodeRuntime_first:
  "snd (DecodeString StdEncoding config) = None \<Longrightarrow>
     decodeRuntime config = ([StdEncoding_DecodeString], DecodeString StdEncoding config)"
  by (cases "DecodeString StdEncoding config") (simp add: decodeRuntime_def)

lemma decodeRuntime_second:
  "snd (DecodeString StdEncoding config) \<noteq> None \<Longrightarrow>
     decodeRuntime config =
       ([StdEncoding_DecodeString, RawURLEncoding_DecodeString], DecodeString RawURLEncoding config)"
  by (cases "DecodeString StdEncoding config"; cases "DecodeString RawURLEncoding config")
     (auto simp: decodeRuntime_def)

lemma decodeRuntime_EncodeToString_Std:
  "decodeRuntime (EncodeToString StdEncoding payload) = ([StdEncoding_DecodeString], payload, None)"
  by (simp add: decodeRuntime_first DecodeString_EncodeToString wellformed_StdEncoding)

lemma decodeRuntime_EncodeToString_RawURL:
  "snd (DecodeString StdEncoding (EncodeToString RawURLEncoding payload)) \<noteq> None \<Longrightarrow>
     decodeRuntime (EncodeToString RawURLEncoding payload) =
       ([StdEncoding_DecodeString, RawURLEncoding_DecodeString], payload, None)"
  by (simp add: decodeRuntime_second DecodeString_EncodeToString wellformed_RawURLEncoding)

text \<open>What \<^verbatim>\<open>ParseRuntime\<close> does with the outcome of the decoding attempts.\<close>

lemma ParseRuntime_decode_error:
  "config \<noteq> [] \<Longrightarrow> decodeRuntime config = (calls, bytes, Some err) \<Longrightarrow>
     ParseRuntime unmarshal config deployID =
       Fatalln ''encore runtime: fatal error: could not decode encore runtime config:'' (Some err)"
  by (simp add: ParseRuntime_def)

lemma ParseRuntime_parse_error:
  "config \<noteq> [] \<Longrightarrow> decodeRuntime config = (calls, bytes, None) \<Longrightarrow> unmarshal bytes = Inl err \<Longrightarrow>
     ParseRuntime unmarshal config deployID =
       Fatalln ''encore runtime: fatal error: could not parse encore runtime config:'' (Some err)"
  by (simp add: ParseRuntime_def)

lemma ParseRuntime_url_error:
  "config \<noteq> [] \<Longrightarrow> decodeRuntime config = (calls, bytes, None) \<Longrightarrow> unmarshal bytes = Inr cfg \<Longrightarrow>
     url_Parse (APIBaseURL cfg) = Some err \<Longrightarrow>
     ParseRuntime unmarshal config deployID =
       Fatalln
         ''encore runtime: fatal error: could not parse api base url from encore runtime config:''
         (Some err)"
  by (simp add: ParseRuntime_def)

lemma ParseRuntime_returns:
  "config \<noteq> [] \<Longrightarrow> decodeRuntime config = (calls, bytes, None) \<Longrightarrow> unmarshal bytes = Inr cfg \<Longrightarrow>
     url_Parse (APIBaseURL cfg) = None \<Longrightarrow>
     ParseRuntime unmarshal config deployID =
       Returned (if deployID \<noteq> [] then cfg\<lparr>DeployID := deployID\<rparr> else cfg)"
  by (simp add: ParseRuntime_def)

lemma ParseRuntime_Returned_cases:
  assumes "ParseRuntime unmarshal config deployID = Returned r"
  obtains calls bytes cfg where "config \<noteq> []" and "decodeRuntime config = (calls, bytes, None)"
    and "unmarshal bytes = Inr cfg" and "url_Parse (APIBaseURL cfg) = None"
    and "r = (if deployID \<noteq> [] then cfg\<lparr>DeployID := deployID\<rparr> else cfg)"
  using assms
  by (cases "decodeRuntime config")
     (auto simp: ParseRuntime_def split: if_splits option.splits sum.splits)


text \<open>The definitions that evaluate the library functions on a given string.\<close>

lemmas base64_eval = DecodeString_def decodeMap_def StdEncoding_def RawURLEncoding_def encodeStd_def
  encodeURL_def assemble_def seenPadding_def endOfData_def skipNewlines_def isNewline_def byte_def
  sextet_def

lemmas url_eval = url_Parse_def parse_def Cut_def firstError_def stringContainsCTLByte_def
  isCTLByte_def isAlpha_def isDigit_def ishex_def unhex_def parseAuthority_def parseHost_def
  validOptionalPort_def validUserinfo_def shouldEscapeHost_def byte_def

lemmas json_eval = Unmarshal_Runtime_def scan_def eof_def scanStep_def beginValue_def
  beginString_def endValue_def endTop_def endNumber_def number0_def numberESign_def
  pushParseState_def popParseState_def scanError_def isSpace_def maxNestingDepth_def isDigit_def
  ishex_def member_def literalStore_def saveError_def unquote_def toUpper_def between_def
  byte_def DecodeRuneSize_def getu4_def unescapeChar_def EncodeRune_def replacementChar_def
  unhex_def continuation_def literalName_def

section \<open>The claims\<close>

text \<open>
  C3. For the empty string as the blob, \<^verbatim>\<open>ParseRuntime\<close> and \<^verbatim>\<open>ParseStatic\<close> both end
  the process with a message that says which configuration is missing; neither returns
  a configuration, whatever the override and whatever the JSON decoding would do.
\<close>

theorem empty_config_fatal:
  "ParseRuntime unmarshal [] deployID =
     Fatalln ''encore runtime: fatal error: no encore runtime config provided'' None
   \<and> ParseRuntime unmarshal [] deployID \<noteq> Returned cfg
   \<and> ParseStatic unmarshal' [] =
     Fatalln ''encore runtime: fatal error: no encore static config provided'' None
   \<and> ParseStatic unmarshal' [] \<noteq> Returned cfg'"
  by (simp add: ParseRuntime_def ParseStatic_def)

text \<open>
  C1. When standard base64 does not decode the blob, \<^verbatim>\<open>ParseRuntime\<close> calls the URL-safe
  decoder without padding next and goes on with what that call returns; the process
  ends with the decode message exactly when both calls fail, and the error logged is
  the one of the second call. When standard base64 decodes the blob, the standard
  decoder is the only one called.
\<close>

theorem decode_fallback:
  "(snd (DecodeString StdEncoding config) \<noteq> None \<longrightarrow>
      decodeRuntime config =
        ([StdEncoding_DecodeString, RawURLEncoding_DecodeString],
         DecodeString RawURLEncoding config))
   \<and> (snd (DecodeString StdEncoding config) = None \<longrightarrow>
      decodeRuntime config = ([StdEncoding_DecodeString], DecodeString StdEncoding config))
   \<and> ((\<exists>e. ParseRuntime unmarshal config deployID =
           Fatalln ''encore runtime: fatal error: could not decode encore runtime config:'' e)
        \<longleftrightarrow> snd (DecodeString StdEncoding config) \<noteq> None
            \<and> snd (DecodeString RawURLEncoding config) \<noteq> None)
   \<and> (snd (DecodeString StdEncoding config) \<noteq> None \<longrightarrow>
      snd (DecodeString RawURLEncoding config) = Some err \<longrightarrow>
      ParseRuntime unmarshal config deployID =
        Fatalln ''encore runtime: fatal error: could not decode encore runtime config:''
          (Some err))"
proof (intro conjI impI)
  assume "snd (DecodeString StdEncoding config) \<noteq> None"
  then show "decodeRuntime config =
      ([StdEncoding_DecodeString, RawURLEncoding_DecodeString], DecodeString RawURLEncoding config)"
    by (rule decodeRuntime_second)
next
  assume "snd (DecodeString StdEncoding config) = None"
  then show "decodeRuntime config = ([StdEncoding_DecodeString], DecodeString StdEncoding config)"
    by (rule decodeRuntime_first)
next
  show "(\<exists>e. ParseRuntime unmarshal config deployID =
           Fatalln ''encore runtime: fatal error: could not decode encore runtime config:'' e)
        \<longleftrightarrow> snd (DecodeString StdEncoding config) \<noteq> None
            \<and> snd (DecodeString RawURLEncoding config) \<noteq> None"
  proof (cases "config = []")
    case True
    then show ?thesis
      by (simp add: ParseRuntime_def DecodeString_Nil)
  next
    case False
    show ?thesis
    proof (cases "snd (DecodeString StdEncoding config) = None")
      case True
      obtain bytes where "DecodeString StdEncoding config = (bytes, None)"
        using True by (cases "DecodeString StdEncoding config") simp
      with False True show ?thesis
        by (simp add: ParseRuntime_def decodeRuntime_first split: sum.splits option.splits)
    next
      case std: False
      obtain bytes e where raw: "DecodeString RawURLEncoding config = (bytes, e)"
        by (cases "DecodeString RawURLEncoding config")
      with False std show ?thesis
        by (simp add: ParseRuntime_def decodeRuntime_second split: sum.splits option.splits)
    qed
  qed
next
  assume std: "snd (DecodeString StdEncoding config) \<noteq> None"
    and raw: "snd (DecodeString RawURLEncoding config) = Some err"
  have ne: "config \<noteq> []"
    using std by (auto simp: DecodeString_Nil)
  obtain bytes where "DecodeString RawURLEncoding config = (bytes, Some err)"
    using raw by (cases "DecodeString RawURLEncoding config") simp
  with std have "decodeRuntime config =
      ([StdEncoding_DecodeString, RawURLEncoding_DecodeString], bytes, Some err)"
    by (simp add: decodeRuntime_second)
  with ne show "ParseRuntime unmarshal config deployID =
      Fatalln ''encore runtime: fatal error: could not decode encore runtime config:'' (Some err)"
    by (rule ParseRuntime_decode_error)
qed

text \<open>
  C2. When the blob decodes, the JSON decoder accepts the bytes and the URL parses,
  \<^verbatim>\<open>ParseRuntime\<close> returns a \<^verbatim>\<open>Runtime\<close> whose \<^verbatim>\<open>DeployID\<close> is the override if the
  override is not empty, whatever the blob holds, and is the \<^verbatim>\<open>DeployID\<close> decoded from
  the blob if the override is empty.
\<close>

theorem deployID_override:
  assumes "config \<noteq> []" and "decodeRuntime config = (calls, bytes, None)"
    and "unmarshal bytes = Inr cfg" and "url_Parse (APIBaseURL cfg) = None"
  shows "\<exists>r. ParseRuntime unmarshal config deployID = Returned r
           \<and> DeployID r = (if deployID \<noteq> [] then deployID else DeployID cfg)"
  using ParseRuntime_returns [where unmarshal = unmarshal and deployID = deployID, OF assms] by simp

lemma url_Parse_control:
  "stringContainsCTLByte (fst (Cut rawURL CHR ''#'')) \<Longrightarrow>
     url_Parse rawURL = Some (errors_New ''net/url: invalid control character in URL'')"
proof -
  assume ctl: "stringContainsCTLByte (fst (Cut rawURL CHR ''#''))"
  obtain u frag where cut: "Cut rawURL CHR ''#'' = (u, frag)"
    by (cases "Cut rawURL CHR ''#''")
  with ctl have "parse u = Some (errors_New ''net/url: invalid control character in URL'')"
    by (simp add: parse_def)
  with cut show ?thesis
    by (simp add: url_Parse_def firstError_def)
qed

text \<open>
  C5, as amended. When the blob decodes and the JSON decoder accepts the bytes,
  \<^verbatim>\<open>ParseRuntime\<close> ends the process with the message for the API base URL exactly when
  \<^verbatim>\<open>url.Parse\<close> rejects the \<^verbatim>\<open>APIBaseURL\<close> that was decoded, and the error logged is the
  one of \<^verbatim>\<open>url.Parse\<close>. A control character (a byte below \<^verbatim>\<open>0x20\<close>, or \<^verbatim>\<open>0x7F\<close>) before
  the first \<^verbatim>\<open>#\<close> of the string is such a case. A control character after the first
  \<^verbatim>\<open>#\<close> is not: \<^verbatim>\<open>url.Parse\<close> looks for control characters in the part before the
  fragment only.
\<close>

theorem invalid_url_fatal:
  assumes "config \<noteq> []" and "decodeRuntime config = (calls, bytes, None)"
    and "unmarshal bytes = Inr cfg"
  shows "(url_Parse (APIBaseURL cfg) = Some err \<longrightarrow>
            ParseRuntime unmarshal config deployID =
              Fatalln
                ''encore runtime: fatal error: could not parse api base url from encore runtime config:''
                (Some err))
         \<and> (stringContainsCTLByte (fst (Cut (APIBaseURL cfg) CHR ''#'')) \<longrightarrow>
            ParseRuntime unmarshal config deployID =
              Fatalln
                ''encore runtime: fatal error: could not parse api base url from encore runtime config:''
                (Some (errors_New ''net/url: invalid control character in URL'')))
         \<and> ((\<exists>e. ParseRuntime unmarshal config deployID =
                Fatalln
                  ''encore runtime: fatal error: could not parse api base url from encore runtime config:''
                  e)
              \<longleftrightarrow> url_Parse (APIBaseURL cfg) \<noteq> None)"
proof (intro conjI impI)
  assume "url_Parse (APIBaseURL cfg) = Some err"
  with assms show "ParseRuntime unmarshal config deployID =
      Fatalln
        ''encore runtime: fatal error: could not parse api base url from encore runtime config:''
        (Some err)"
    by (simp add: ParseRuntime_def)
next
  assume "stringContainsCTLByte (fst (Cut (APIBaseURL cfg) CHR ''#''))"
  then have "url_Parse (APIBaseURL cfg) =
      Some (errors_New ''net/url: invalid control character in URL'')"
    by (rule url_Parse_control)
  with assms show "ParseRuntime unmarshal config deployID =
      Fatalln
        ''encore runtime: fatal error: could not parse api base url from encore runtime config:''
        (Some (errors_New ''net/url: invalid control character in URL''))"
    by (simp add: ParseRuntime_def)
next
  show "(\<exists>e. ParseRuntime unmarshal config deployID =
           Fatalln
             ''encore runtime: fatal error: could not parse api base url from encore runtime config:''
             e)
        \<longleftrightarrow> url_Parse (APIBaseURL cfg) \<noteq> None"
    using assms by (cases "url_Parse (APIBaseURL cfg)") (simp_all add: ParseRuntime_def)
qed

text \<open>
  C7. \<^verbatim>\<open>ParseStatic\<close> calls the standard decoder only. A string that standard base64
  does not decode ends the process with the error of that call, also when the string
  is valid URL-safe base64 without padding.
\<close>

theorem static_no_fallback:
  assumes "snd (DecodeString StdEncoding config) = Some err"
  shows "ParseStatic unmarshal config =
           Fatalln ''encore runtime: fatal error: could not decode encore static config:''
             (Some err)"
proof -
  from assms have "config \<noteq> []"
    by (auto simp: DecodeString_Nil)
  moreover obtain bytes where "DecodeString StdEncoding config = (bytes, Some err)"
    using assms by (cases "DecodeString StdEncoding config") simp
  ultimately show ?thesis
    by (simp add: ParseStatic_def)
qed

text \<open>
  C9. With an override that is not empty, the \<^verbatim>\<open>Runtime\<close> returned is the one returned
  for the empty override (the struct as the JSON decoder filled it) with \<^verbatim>\<open>DeployID\<close>
  replaced: \<^verbatim>\<open>APIBaseURL\<close> and every other field are the same.
\<close>

theorem override_frame:
  assumes "ParseRuntime unmarshal config deployID = Returned r"
  shows "\<exists>cfg. unmarshal (fst (snd (decodeRuntime config))) = Inr cfg
           \<and> ParseRuntime unmarshal config [] = Returned cfg
           \<and> r = cfg\<lparr>DeployID := DeployID r\<rparr>
           \<and> APIBaseURL r = APIBaseURL cfg
           \<and> Runtime.more r = Runtime.more cfg"
proof -
  from assms obtain calls bytes cfg where ne: "config \<noteq> []"
    and dec: "decodeRuntime config = (calls, bytes, None)"
    and un: "unmarshal bytes = Inr cfg" and url: "url_Parse (APIBaseURL cfg) = None"
    and r: "r = (if deployID \<noteq> [] then cfg\<lparr>DeployID := deployID\<rparr> else cfg)"
    by (rule ParseRuntime_Returned_cases)
  have "ParseRuntime unmarshal config [] = Returned cfg"
    using ParseRuntime_returns [where unmarshal = unmarshal and deployID = "[]", OF ne dec un url]
    by simp
  with dec un r show ?thesis
    by auto
qed

text \<open>
  C4, as amended. A \<^verbatim>\<open>Runtime\<close> that \<^verbatim>\<open>ParseRuntime\<close> returns has an \<^verbatim>\<open>APIBaseURL\<close> that
  \<^verbatim>\<open>url.Parse\<close> accepts, and its \<^verbatim>\<open>DeployID\<close> is the override, hence not empty, whenever
  the override is not empty. Neither field is checked for being empty: the empty string
  is a URL that \<^verbatim>\<open>url.Parse\<close> accepts.
\<close>

theorem returned_url_parses:
  assumes "ParseRuntime unmarshal config deployID = Returned r"
  shows "url_Parse (APIBaseURL r) = None
         \<and> (deployID \<noteq> [] \<longrightarrow> DeployID r = deployID \<and> DeployID r \<noteq> [])"
proof -
  from assms obtain calls bytes cfg where "url_Parse (APIBaseURL cfg) = None"
    and "r = (if deployID \<noteq> [] then cfg\<lparr>DeployID := deployID\<rparr> else cfg)"
    by (rule ParseRuntime_Returned_cases)
  then show ?thesis
    by auto
qed

text \<open>
  C6. A payload is encoded with URL-safe base64 without padding. If standard base64
  does not decode that string, \<^verbatim>\<open>ParseRuntime\<close> decodes it on the second attempt and
  does with it exactly what it does with the standard encoding of the same payload,
  for the same override; in particular it returns the same \<^verbatim>\<open>Runtime\<close> when the JSON
  decoder accepts the payload and the URL parses.
\<close>

theorem fallback_equivalence:
  assumes "snd (DecodeString StdEncoding (EncodeToString RawURLEncoding payload)) \<noteq> None"
  shows "decodeRuntime (EncodeToString RawURLEncoding payload) =
           ([StdEncoding_DecodeString, RawURLEncoding_DecodeString], payload, None)
         \<and> ParseRuntime unmarshal (EncodeToString RawURLEncoding payload) deployID =
             ParseRuntime unmarshal (EncodeToString StdEncoding payload) deployID
         \<and> (unmarshal payload = Inr cfg \<longrightarrow> url_Parse (APIBaseURL cfg) = None \<longrightarrow>
              ParseRuntime unmarshal (EncodeToString RawURLEncoding payload) deployID =
                Returned (if deployID \<noteq> [] then cfg\<lparr>DeployID := deployID\<rparr> else cfg))"
proof -
  have raw: "decodeRuntime (EncodeToString RawURLEncoding payload) =
      ([StdEncoding_DecodeString, RawURLEncoding_DecodeString], payload, None)"
    using assms by (rule decodeRuntime_EncodeToString_RawURL)
  have std: "decodeRuntime (EncodeToString StdEncoding payload) =
      ([StdEncoding_DecodeString], payload, None)"
    by (rule decodeRuntime_EncodeToString_Std)
  have "payload \<noteq> []"
    using assms by (auto simp: DecodeString_Nil)
  then have ne: "EncodeToString RawURLEncoding payload \<noteq> []"
      "EncodeToString StdEncoding payload \<noteq> []"
    by (simp_all add: EncodeToString_Nil)
  have same: "ParseRuntime unmarshal (EncodeToString RawURLEncoding payload) deployID =
      ParseRuntime unmarshal (EncodeToString StdEncoding payload) deployID"
    using ne by (simp add: ParseRuntime_def raw std)
  show ?thesis
    using raw same
      ParseRuntime_returns [where unmarshal = unmarshal and cfg = cfg and deployID = deployID,
        OF ne(1) raw]
    by blast
qed

text \<open>The payload of the spec's scenario, its encoding and what the libraries make of it.\<close>

lemma scenario_blob:
  "EncodeToString StdEncoding
      ''{\"APIBaseURL\":\"https://api.example.com\",\"DeployID\":\"abc123\"}'' =
     ''eyJBUElCYXNlVVJMIjoiaHR0cHM6Ly9hcGkuZXhhbXBsZS5jb20iLCJEZXBsb3lJRCI6ImFiYzEyMyJ9''"
  by (simp add: base64_eval)

lemma scenario_payload:
  "Unmarshal_Runtime ''{\"APIBaseURL\":\"https://api.example.com\",\"DeployID\":\"abc123\"}'' =
     Inr \<lparr>APIBaseURL = ''https://api.example.com'', DeployID = ''abc123''\<rparr>"
  by (simp add: json_eval)

lemma scenario_url: "url_Parse ''https://api.example.com'' = None"
  by (simp add: url_eval)

text \<open>
  C8. For a payload that is not empty, that the JSON decoder accepts and (for the
  runtime configuration) whose URL parses, a loader given the standard base64 encoding
  of the payload returns the struct that the JSON decoder makes of the payload. The
  blob of the spec's scenario,
  \<^verbatim>\<open>{"APIBaseURL":"https://api.example.com","DeployID":"abc123"}\<close> in standard base64,
  gives these two field values with the empty override.
\<close>

theorem standard_roundtrip:
  "(payload \<noteq> [] \<longrightarrow> unmarshal payload = Inr cfg \<longrightarrow> url_Parse (APIBaseURL cfg) = None \<longrightarrow>
      ParseRuntime unmarshal (EncodeToString StdEncoding payload) [] = Returned cfg)
   \<and> (payload \<noteq> [] \<longrightarrow> unmarshal' payload = Inr cfg' \<longrightarrow>
      ParseStatic unmarshal' (EncodeToString StdEncoding payload) = Returned cfg')
   \<and> ParseRuntime Unmarshal_Runtime
        ''eyJBUElCYXNlVVJMIjoiaHR0cHM6Ly9hcGkuZXhhbXBsZS5jb20iLCJEZXBsb3lJRCI6ImFiYzEyMyJ9'' [] =
      Returned \<lparr>APIBaseURL = ''https://api.example.com'', DeployID = ''abc123''\<rparr>"
proof (intro conjI impI)
  assume "payload \<noteq> []" and un: "unmarshal payload = Inr cfg"
    and url: "url_Parse (APIBaseURL cfg) = None"
  then have "EncodeToString StdEncoding payload \<noteq> []"
    by (simp add: EncodeToString_Nil)
  from ParseRuntime_returns [where unmarshal = unmarshal and deployID = "[]",
      OF this decodeRuntime_EncodeToString_Std un url]
  show "ParseRuntime unmarshal (EncodeToString StdEncoding payload) [] = Returned cfg"
    by simp
next
  assume "payload \<noteq> []" and "unmarshal' payload = Inr cfg'"
  then show "ParseStatic unmarshal' (EncodeToString StdEncoding payload) = Returned cfg'"
    by (simp add: ParseStatic_def EncodeToString_Nil DecodeString_EncodeToString
        wellformed_StdEncoding)
next
  let ?payload = "''{\"APIBaseURL\":\"https://api.example.com\",\"DeployID\":\"abc123\"}''"
  let ?cfg = "\<lparr>APIBaseURL = ''https://api.example.com'', DeployID = ''abc123''\<rparr>"
  have "EncodeToString StdEncoding ?payload \<noteq> []"
    by (simp add: EncodeToString_Nil)
  from ParseRuntime_returns [where unmarshal = Unmarshal_Runtime and deployID = "[]",
      OF this decodeRuntime_EncodeToString_Std scenario_payload]
  have "ParseRuntime Unmarshal_Runtime (EncodeToString StdEncoding ?payload) [] = Returned ?cfg"
    by (simp add: scenario_url)
  then show "ParseRuntime Unmarshal_Runtime
      ''eyJBUElCYXNlVVJMIjoiaHR0cHM6Ly9hcGkuZXhhbXBsZS5jb20iLCJEZXBsb3lJRCI6ImFiYzEyMyJ9'' [] =
      Returned ?cfg"
    by (simp only: scenario_blob)
qed

section \<open>The claims at given blobs\<close>

text \<open>
  The blobs: \<^verbatim>\<open>e30=\<close> is \<^verbatim>\<open>{}\<close> in standard base64 and \<^verbatim>\<open>e30\<close> is \<^verbatim>\<open>{}\<close> in URL-safe
  base64 without padding; \<^verbatim>\<open>!\<close> is in neither alphabet.
\<close>

lemma Std_e30: "DecodeString StdEncoding ''e30'' = ([], Some (CorruptInputError 0))"
  by (simp add: base64_eval)

lemma RawURL_e30: "DecodeString RawURLEncoding ''e30'' = (''{}'', None)"
  by (simp add: base64_eval)

lemma Std_e30_padded: "DecodeString StdEncoding ''e30='' = (''{}'', None)"
  by (simp add: base64_eval)

lemma Std_bang: "DecodeString StdEncoding ''!'' = ([], Some (CorruptInputError 0))"
  by (simp add: base64_eval)

lemma RawURL_bang: "DecodeString RawURLEncoding ''!'' = ([], Some (CorruptInputError 0))"
  by (simp add: base64_eval)

lemma Unmarshal_empty_object: "Unmarshal_Runtime ''{}'' = Inr \<lparr>APIBaseURL = [], DeployID = []\<rparr>"
  by (simp add: json_eval)

lemma url_Parse_Nil: "url_Parse [] = None"
  by (simp add: url_eval)

lemma scenario_decode:
  "decodeRuntime
      ''eyJBUElCYXNlVVJMIjoiaHR0cHM6Ly9hcGkuZXhhbXBsZS5jb20iLCJEZXBsb3lJRCI6ImFiYzEyMyJ9'' =
     ([StdEncoding_DecodeString],
      ''{\"APIBaseURL\":\"https://api.example.com\",\"DeployID\":\"abc123\"}'', None)"
  using decodeRuntime_EncodeToString_Std
    [of "''{\"APIBaseURL\":\"https://api.example.com\",\"DeployID\":\"abc123\"}''"]
  by (simp only: scenario_blob)

theorem decode_fallback_witness:
  "snd (DecodeString StdEncoding ''e30'') \<noteq> None
   \<and> decodeRuntime ''e30'' =
       ([StdEncoding_DecodeString, RawURLEncoding_DecodeString], ''{}'', None)
   \<and> snd (DecodeString StdEncoding ''e30='') = None
   \<and> decodeRuntime ''e30='' = ([StdEncoding_DecodeString], ''{}'', None)
   \<and> snd (DecodeString StdEncoding ''!'') \<noteq> None
   \<and> snd (DecodeString RawURLEncoding ''!'') = Some (CorruptInputError 0)
   \<and> ParseRuntime Unmarshal_Runtime ''!'' [] =
       Fatalln ''encore runtime: fatal error: could not decode encore runtime config:''
         (Some (CorruptInputError 0))"
  using decode_fallback [where config = "''e30''" and unmarshal = Unmarshal_Runtime
      and deployID = "[]" and err = "CorruptInputError 0"]
    decode_fallback [where config = "''e30=''" and unmarshal = Unmarshal_Runtime
      and deployID = "[]" and err = "CorruptInputError 0"]
    decode_fallback [where config = "''!''" and unmarshal = Unmarshal_Runtime
      and deployID = "[]" and err = "CorruptInputError 0"]
  by (simp add: Std_e30 RawURL_e30 Std_e30_padded Std_bang RawURL_bang)

theorem deployID_override_witness:
  "''eyJBUElCYXNlVVJMIjoiaHR0cHM6Ly9hcGkuZXhhbXBsZS5jb20iLCJEZXBsb3lJRCI6ImFiYzEyMyJ9'' \<noteq> []
   \<and> Unmarshal_Runtime ''{\"APIBaseURL\":\"https://api.example.com\",\"DeployID\":\"abc123\"}'' =
       Inr \<lparr>APIBaseURL = ''https://api.example.com'', DeployID = ''abc123''\<rparr>
   \<and> url_Parse ''https://api.example.com'' = None
   \<and> (\<exists>r. ParseRuntime Unmarshal_Runtime
          ''eyJBUElCYXNlVVJMIjoiaHR0cHM6Ly9hcGkuZXhhbXBsZS5jb20iLCJEZXBsb3lJRCI6ImFiYzEyMyJ9''
          ''xyz789'' = Returned r \<and> DeployID r = ''xyz789'')
   \<and> (\<exists>r. ParseRuntime Unmarshal_Runtime
          ''eyJBUElCYXNlVVJMIjoiaHR0cHM6Ly9hcGkuZXhhbXBsZS5jb20iLCJEZXBsb3lJRCI6ImFiYzEyMyJ9''
          [] = Returned r \<and> DeployID r = ''abc123'')"
  using deployID_override [where unmarshal = Unmarshal_Runtime and deployID = "''xyz789''",
      OF _ scenario_decode scenario_payload]
    deployID_override [where unmarshal = Unmarshal_Runtime and deployID = "[]",
      OF _ scenario_decode scenario_payload]
  by (simp add: scenario_payload scenario_url)

theorem static_no_fallback_witness:
  "snd (DecodeString StdEncoding ''e30'') = Some (CorruptInputError 0)
   \<and> DecodeString RawURLEncoding ''e30'' = (''{}'', None)
   \<and> ParseStatic Unmarshal_Runtime ''e30'' =
       Fatalln ''encore runtime: fatal error: could not decode encore static config:''
         (Some (CorruptInputError 0))"
  using static_no_fallback [where config = "''e30''" and err = "CorruptInputError 0"
      and unmarshal = Unmarshal_Runtime]
  by (simp add: Std_e30 RawURL_e30)

theorem returned_nonempty_counterexample:
  "ParseRuntime Unmarshal_Runtime ''e30='' [] = Returned \<lparr>APIBaseURL = [], DeployID = []\<rparr>"
proof -
  have "decodeRuntime ''e30='' = ([StdEncoding_DecodeString], ''{}'', None)"
    by (simp add: decodeRuntime_first Std_e30_padded)
  from ParseRuntime_returns [where unmarshal = Unmarshal_Runtime and deployID = "[]",
      OF _ this Unmarshal_empty_object]
  show ?thesis
    by (simp add: url_Parse_Nil)
qed

theorem returned_url_parses_witness:
  "ParseRuntime Unmarshal_Runtime
      ''eyJBUElCYXNlVVJMIjoiaHR0cHM6Ly9hcGkuZXhhbXBsZS5jb20iLCJEZXBsb3lJRCI6ImFiYzEyMyJ9''
      ''xyz789'' =
     Returned \<lparr>APIBaseURL = ''https://api.example.com'', DeployID = ''xyz789''\<rparr>
   \<and> url_Parse ''https://api.example.com'' = None
   \<and> ''xyz789'' \<noteq> []"
proof -
  have r: "ParseRuntime Unmarshal_Runtime
      ''eyJBUElCYXNlVVJMIjoiaHR0cHM6Ly9hcGkuZXhhbXBsZS5jb20iLCJEZXBsb3lJRCI6ImFiYzEyMyJ9''
      ''xyz789'' =
     Returned \<lparr>APIBaseURL = ''https://api.example.com'', DeployID = ''xyz789''\<rparr>"
    using ParseRuntime_returns [where unmarshal = Unmarshal_Runtime and deployID = "''xyz789''",
        OF _ scenario_decode scenario_payload]
    by (simp add: scenario_url)
  from returned_url_parses [OF r] r show ?thesis
    by simp
qed

theorem override_frame_witness:
  "ParseRuntime Unmarshal_Runtime
      ''eyJBUElCYXNlVVJMIjoiaHR0cHM6Ly9hcGkuZXhhbXBsZS5jb20iLCJEZXBsb3lJRCI6ImFiYzEyMyJ9''
      ''xyz789'' =
     Returned \<lparr>APIBaseURL = ''https://api.example.com'', DeployID = ''xyz789''\<rparr>
   \<and> ParseRuntime Unmarshal_Runtime
      ''eyJBUElCYXNlVVJMIjoiaHR0cHM6Ly9hcGkuZXhhbXBsZS5jb20iLCJEZXBsb3lJRCI6ImFiYzEyMyJ9'' [] =
     Returned \<lparr>APIBaseURL = ''https://api.example.com'', DeployID = ''abc123''\<rparr>"
proof -
  have r: "ParseRuntime Unmarshal_Runtime
      ''eyJBUElCYXNlVVJMIjoiaHR0cHM6Ly9hcGkuZXhhbXBsZS5jb20iLCJEZXBsb3lJRCI6ImFiYzEyMyJ9''
      ''xyz789'' =
     Returned \<lparr>APIBaseURL = ''https://api.example.com'', DeployID = ''xyz789''\<rparr>"
    using ParseRuntime_returns [where unmarshal = Unmarshal_Runtime and deployID = "''xyz789''",
        OF _ scenario_decode scenario_payload]
    by (simp add: scenario_url)
  from override_frame [OF r] r show ?thesis
    by (auto simp: scenario_decode scenario_payload)
qed

text \<open>
  A payload whose \<^verbatim>\<open>APIBaseURL\<close> holds the control character U+0001, written as a JSON
  escape: \<^verbatim>\<open>{"APIBaseURL":"http://a\u0001"}\<close>.
\<close>

lemma control_blob:
  "EncodeToString StdEncoding (''{\"APIBaseURL\":\"http://a'' @ [CHR 0x5C] @ ''u0001\"}'') =
     ''eyJBUElCYXNlVVJMIjoiaHR0cDovL2FcdTAwMDEifQ==''"
  by (simp add: base64_eval)

lemma unquoteBytes_skip:
  "unquoteBytes keep (numeral k) (c # s) = unquoteBytes keep (pred_numeral k) s"
  by (simp add: numeral_eq_Suc)

lemma unquoteBytes_keep:
  "unquoteBytes (numeral k) 0 (c # s) = c # unquoteBytes (pred_numeral k) 0 s"
  by (simp add: numeral_eq_Suc)

lemma control_payload:
  "Unmarshal_Runtime (''{\"APIBaseURL\":\"http://a'' @ [CHR 0x5C] @ ''u0001\"}'') =
     Inr \<lparr>APIBaseURL = ''http://a'' @ [CHR 0x01], DeployID = []\<rparr>"
  by (simp add: json_eval unquoteBytes_skip unquoteBytes_keep)

lemma control_decode:
  "decodeRuntime ''eyJBUElCYXNlVVJMIjoiaHR0cDovL2FcdTAwMDEifQ=='' =
     ([StdEncoding_DecodeString], ''{\"APIBaseURL\":\"http://a'' @ [CHR 0x5C] @ ''u0001\"}'', None)"
  using decodeRuntime_EncodeToString_Std
    [of "''{\"APIBaseURL\":\"http://a'' @ [CHR 0x5C] @ ''u0001\"}''"]
  by (simp only: control_blob)

theorem invalid_url_fatal_witness:
  "''eyJBUElCYXNlVVJMIjoiaHR0cDovL2FcdTAwMDEifQ=='' \<noteq> []
   \<and> stringContainsCTLByte (fst (Cut (''http://a'' @ [CHR 0x01]) CHR ''#''))
   \<and> url_Parse (''http://a'' @ [CHR 0x01]) =
       Some (errors_New ''net/url: invalid control character in URL'')
   \<and> ParseRuntime Unmarshal_Runtime ''eyJBUElCYXNlVVJMIjoiaHR0cDovL2FcdTAwMDEifQ=='' [] =
       Fatalln
         ''encore runtime: fatal error: could not parse api base url from encore runtime config:''
         (Some (errors_New ''net/url: invalid control character in URL''))"
proof -
  have ctl: "stringContainsCTLByte (fst (Cut (''http://a'' @ [CHR 0x01]) CHR ''#''))"
    by (simp add: Cut_def stringContainsCTLByte_def isCTLByte_def)
  have url: "url_Parse (''http://a'' @ [CHR 0x01]) =
      Some (errors_New ''net/url: invalid control character in URL'')"
    using ctl by (rule url_Parse_control)
  from invalid_url_fatal [where unmarshal = Unmarshal_Runtime and deployID = "[]"
      and err = "errors_New ''net/url: invalid control character in URL''",
      OF _ control_decode control_payload] ctl url
  show ?thesis
    by simp
qed

text \<open>
  The same control character after a \<^verbatim>\<open>#\<close>: the payload
  \<^verbatim>\<open>{"APIBaseURL":"http://a#\u0001"}\<close>. \<^verbatim>\<open>url.Parse\<close> accepts the string, and
  \<^verbatim>\<open>ParseRuntime\<close> returns the configuration.
\<close>

lemma fragment_blob:
  "EncodeToString StdEncoding (''{\"APIBaseURL\":\"http://a#'' @ [CHR 0x5C] @ ''u0001\"}'') =
     ''eyJBUElCYXNlVVJMIjoiaHR0cDovL2EjXHUwMDAxIn0=''"
  by (simp add: base64_eval)

lemma fragment_payload:
  "Unmarshal_Runtime (''{\"APIBaseURL\":\"http://a#'' @ [CHR 0x5C] @ ''u0001\"}'') =
     Inr \<lparr>APIBaseURL = ''http://a#'' @ [CHR 0x01], DeployID = []\<rparr>"
  by (simp add: json_eval unquoteBytes_skip unquoteBytes_keep)

lemma fragment_decode:
  "decodeRuntime ''eyJBUElCYXNlVVJMIjoiaHR0cDovL2EjXHUwMDAxIn0='' =
     ([StdEncoding_DecodeString], ''{\"APIBaseURL\":\"http://a#'' @ [CHR 0x5C] @ ''u0001\"}'', None)"
  using decodeRuntime_EncodeToString_Std
    [of "''{\"APIBaseURL\":\"http://a#'' @ [CHR 0x5C] @ ''u0001\"}''"]
  by (simp only: fragment_blob)

lemma fragment_url: "url_Parse (''http://a#'' @ [CHR 0x01]) = None"
  by (simp add: url_eval)

theorem control_in_fragment_counterexample:
  "stringContainsCTLByte (''http://a#'' @ [CHR 0x01])
   \<and> ParseRuntime Unmarshal_Runtime ''eyJBUElCYXNlVVJMIjoiaHR0cDovL2EjXHUwMDAxIn0='' [] =
       Returned \<lparr>APIBaseURL = ''http://a#'' @ [CHR 0x01], DeployID = []\<rparr>"
proof -
  have "stringContainsCTLByte (''http://a#'' @ [CHR 0x01])"
    by (simp add: stringContainsCTLByte_def isCTLByte_def)
  moreover have "ParseRuntime Unmarshal_Runtime ''eyJBUElCYXNlVVJMIjoiaHR0cDovL2EjXHUwMDAxIn0='' [] =
      Returned \<lparr>APIBaseURL = ''http://a#'' @ [CHR 0x01], DeployID = []\<rparr>"
    using ParseRuntime_returns [where unmarshal = Unmarshal_Runtime and deployID = "[]",
        OF _ fragment_decode fragment_payload]
    by (simp add: fragment_url [simplified])
  ultimately show ?thesis
    by simp
qed

text \<open>
  A payload of 61 bytes: its URL-safe encoding without padding has 82 characters, which
  standard base64 rejects at the end of the input because the padding is missing.
\<close>

lemma unpadded_blob:
  "EncodeToString RawURLEncoding
      ''{\"APIBaseURL\":\"https://api.example.com\",\"DeployID\":\"abc1234\"}'' =
     ''eyJBUElCYXNlVVJMIjoiaHR0cHM6Ly9hcGkuZXhhbXBsZS5jb20iLCJEZXBsb3lJRCI6ImFiYzEyMzQifQ''"
  by (simp add: base64_eval)

lemma padded_blob:
  "EncodeToString StdEncoding
      ''{\"APIBaseURL\":\"https://api.example.com\",\"DeployID\":\"abc1234\"}'' =
     ''eyJBUElCYXNlVVJMIjoiaHR0cHM6Ly9hcGkuZXhhbXBsZS5jb20iLCJEZXBsb3lJRCI6ImFiYzEyMzQifQ==''"
  by (simp add: base64_eval)

lemma unpadded_Std:
  "snd (DecodeString StdEncoding
      ''eyJBUElCYXNlVVJMIjoiaHR0cHM6Ly9hcGkuZXhhbXBsZS5jb20iLCJEZXBsb3lJRCI6ImFiYzEyMzQifQ'') =
     Some (CorruptInputError 80)"
  by (simp add: base64_eval)

lemma unpadded_payload:
  "Unmarshal_Runtime ''{\"APIBaseURL\":\"https://api.example.com\",\"DeployID\":\"abc1234\"}'' =
     Inr \<lparr>APIBaseURL = ''https://api.example.com'', DeployID = ''abc1234''\<rparr>"
  by (simp add: json_eval)

theorem fallback_equivalence_witness:
  "snd (DecodeString StdEncoding
      ''eyJBUElCYXNlVVJMIjoiaHR0cHM6Ly9hcGkuZXhhbXBsZS5jb20iLCJEZXBsb3lJRCI6ImFiYzEyMzQifQ'') \<noteq> None
   \<and> decodeRuntime
      ''eyJBUElCYXNlVVJMIjoiaHR0cHM6Ly9hcGkuZXhhbXBsZS5jb20iLCJEZXBsb3lJRCI6ImFiYzEyMzQifQ'' =
       ([StdEncoding_DecodeString, RawURLEncoding_DecodeString],
        ''{\"APIBaseURL\":\"https://api.example.com\",\"DeployID\":\"abc1234\"}'', None)
   \<and> ParseRuntime Unmarshal_Runtime
      ''eyJBUElCYXNlVVJMIjoiaHR0cHM6Ly9hcGkuZXhhbXBsZS5jb20iLCJEZXBsb3lJRCI6ImFiYzEyMzQifQ'' [] =
     ParseRuntime Unmarshal_Runtime
      ''eyJBUElCYXNlVVJMIjoiaHR0cHM6Ly9hcGkuZXhhbXBsZS5jb20iLCJEZXBsb3lJRCI6ImFiYzEyMzQifQ=='' []
   \<and> ParseRuntime Unmarshal_Runtime
      ''eyJBUElCYXNlVVJMIjoiaHR0cHM6Ly9hcGkuZXhhbXBsZS5jb20iLCJEZXBsb3lJRCI6ImFiYzEyMzQifQ'' [] =
     Returned \<lparr>APIBaseURL = ''https://api.example.com'', DeployID = ''abc1234''\<rparr>"
  using fallback_equivalence [where unmarshal = Unmarshal_Runtime and deployID = "[]"
      and payload = "''{\"APIBaseURL\":\"https://api.example.com\",\"DeployID\":\"abc1234\"}''"
      and cfg = "\<lparr>APIBaseURL = ''https://api.example.com'', DeployID = ''abc1234''\<rparr>",
      unfolded unpadded_blob padded_blob]
  by (auto simp add: unpadded_Std unpadded_payload scenario_url)

theorem standard_roundtrip_witness:
  "''{\"APIBaseURL\":\"https://api.example.com\",\"DeployID\":\"abc123\"}'' \<noteq> []
   \<and> Unmarshal_Runtime ''{\"APIBaseURL\":\"https://api.example.com\",\"DeployID\":\"abc123\"}'' =
       Inr \<lparr>APIBaseURL = ''https://api.example.com'', DeployID = ''abc123''\<rparr>
   \<and> url_Parse ''https://api.example.com'' = None
   \<and> ParseRuntime Unmarshal_Runtime
        (EncodeToString StdEncoding
           ''{\"APIBaseURL\":\"https://api.example.com\",\"DeployID\":\"abc123\"}'') [] =
       Returned \<lparr>APIBaseURL = ''https://api.example.com'', DeployID = ''abc123''\<rparr>
   \<and> ParseStatic Unmarshal_Runtime
        (EncodeToString StdEncoding
           ''{\"APIBaseURL\":\"https://api.example.com\",\"DeployID\":\"abc123\"}'') =
       Returned \<lparr>APIBaseURL = ''https://api.example.com'', DeployID = ''abc123''\<rparr>"
  using standard_roundtrip [where unmarshal = Unmarshal_Runtime and unmarshal' = Unmarshal_Runtime
      and payload = "''{\"APIBaseURL\":\"https://api.example.com\",\"DeployID\":\"abc123\"}''"
      and cfg = "\<lparr>APIBaseURL = ''https://api.example.com'', DeployID = ''abc123''\<rparr>"
      and cfg' = "\<lparr>APIBaseURL = ''https://api.example.com'', DeployID = ''abc123''\<rparr>"]
  by (simp add: scenario_payload scenario_url)

end
